theory Spec2Isabelle
  imports Complex_Main
begin

section \<open>Driver vigilance monitor: the decision core of monitoring.js\<close>

text \<open>
  The theory embeds the feature extractors (\<open>calculateEAR\<close>, \<open>calculateMAR\<close>,
  \<open>calculateHeadPose\<close>), the alert set (\<open>updateAlert\<close>), the per-frame classification in
  \<open>predictWebcam\<close> and \<open>stopMonitoring\<close>. Canvas drawing, DOM text, audio playback and
  camera handling have no influence on the counters or on the alert set and are left out.
\<close>

subsection \<open>JavaScript numbers\<close>

text \<open>
  Landmark coordinates are finite numbers and arithmetic on finite values is taken as
  exact: neither rounding nor overflow is modelled, so the quotient of two finite numbers
  by a non-zero divisor is the real quotient here, where a division of doubles can
  overflow to \<open>Infinity\<close>. A division whose divisor is zero does not raise in
  JavaScript: it yields \<open>Infinity\<close>, \<open>-Infinity\<close> or \<open>NaN\<close>, and every comparison
  with \<open>NaN\<close> is false. The zero divisors of this program are results of \<open>Math.sqrt\<close>
  and therefore positive zeros.
\<close>

datatype number = Finite real | PosInf | NegInf | NaN

fun js_add :: "number \<Rightarrow> number \<Rightarrow> number" where
  "js_add NaN _ = NaN"
| "js_add _ NaN = NaN"
| "js_add (Finite a) (Finite b) = Finite (a + b)"
| "js_add PosInf NegInf = NaN"
| "js_add NegInf PosInf = NaN"
| "js_add PosInf _ = PosInf"
| "js_add _ PosInf = PosInf"
| "js_add NegInf _ = NegInf"
| "js_add _ NegInf = NegInf"

fun js_div :: "number \<Rightarrow> number \<Rightarrow> number" where
  "js_div NaN _ = NaN"
| "js_div _ NaN = NaN"
| "js_div (Finite a) (Finite b) =
     (if b \<noteq> 0 then Finite (a / b)
      else if 0 < a then PosInf else if a < 0 then NegInf else NaN)"
| "js_div (Finite a) _ = Finite 0"
| "js_div PosInf (Finite b) = (if 0 \<le> b then PosInf else NegInf)"
| "js_div NegInf (Finite b) = (if 0 \<le> b then NegInf else PosInf)"
| "js_div _ _ = NaN"

fun js_lt :: "number \<Rightarrow> number \<Rightarrow> bool" where
  "js_lt NaN _ = False"
| "js_lt _ NaN = False"
| "js_lt (Finite a) (Finite b) = (a < b)"
| "js_lt PosInf _ = False"
| "js_lt _ PosInf = True"
| "js_lt _ NegInf = False"
| "js_lt NegInf _ = True"

definition js_gt :: "number \<Rightarrow> number \<Rightarrow> bool" where
  "js_gt a b = js_lt b a"

fun js_ge :: "number \<Rightarrow> number \<Rightarrow> bool" where
  "js_ge NaN _ = False"
| "js_ge _ NaN = False"
| "js_ge a b = (\<not> js_lt a b)"

subsection \<open>Constants\<close>

definition EAR_THRESHOLD_CLOSED :: real where "EAR_THRESHOLD_CLOSED = 0.18"
definition EAR_THRESHOLD_PARTIALLY :: real where "EAR_THRESHOLD_PARTIALLY = 0.22"
definition MAR_THRESHOLD_YAWN :: real where "MAR_THRESHOLD_YAWN = 0.6"
definition MAR_THRESHOLD_ALERT :: real where "MAR_THRESHOLD_ALERT = 0.8"
definition YAW_RATIO_LEFT :: real where "YAW_RATIO_LEFT = 0.4"
definition YAW_RATIO_RIGHT :: real where "YAW_RATIO_RIGHT = 2.5"
definition CONSECUTIVE_FRAMES :: nat where "CONSECUTIVE_FRAMES = 15"

subsection \<open>Landmarks and feature extraction\<close>

text \<open>A landmark \<open>{x, y, z}\<close>; the fields are \<open>px\<close>, \<open>py\<close>, \<open>pz\<close> here.\<close>

record point =
  px :: real
  py :: real
  pz :: real

datatype error = TypeError

text \<open>\<open>landmarks[i]\<close>: an index beyond the array reads \<open>undefined\<close> (\<open>None\<close>).\<close>

definition landmarkAt :: "point list \<Rightarrow> nat \<Rightarrow> point option" where
  "landmarkAt landmarks i = (if i < length landmarks then Some (landmarks ! i) else None)"

definition euclideanDistance :: "point \<Rightarrow> point \<Rightarrow> real" where
  "euclideanDistance point1 point2 =
     (let dx = px point1 - px point2;
          dy = py point1 - py point2;
          dz = pz point1 - pz point2
      in sqrt (dx * dx + dy * dy + dz * dz))"

text \<open>
  \<open>euclideanDistance(landmarks[i], landmarks[j])\<close>: reading \<open>.x\<close> of \<open>undefined\<close>
  throws a TypeError.
\<close>

definition distanceAt :: "point list \<Rightarrow> nat \<Rightarrow> nat \<Rightarrow> error + real" where
  "distanceAt landmarks i j =
     (case landmarkAt landmarks i of
        None \<Rightarrow> Inl TypeError
      | Some point1 \<Rightarrow>
          (case landmarkAt landmarks j of
             None \<Rightarrow> Inl TypeError
           | Some point2 \<Rightarrow> Inr (euclideanDistance point1 point2)))"

definition bind :: "error + 'a \<Rightarrow> ('a \<Rightarrow> error + 'b) \<Rightarrow> error + 'b" where
  "bind m f = (case m of Inl e \<Rightarrow> Inl e | Inr v \<Rightarrow> f v)"

definition calculateEAR :: "point list \<Rightarrow> error + number" where
  "calculateEAR landmarks =
     bind (distanceAt landmarks 160 144) (\<lambda>leftEye_V1.
     bind (distanceAt landmarks 158 153) (\<lambda>leftEye_V2.
     bind (distanceAt landmarks 33 133) (\<lambda>leftEye_H.
     bind (distanceAt landmarks 385 380) (\<lambda>rightEye_V1.
     bind (distanceAt landmarks 387 373) (\<lambda>rightEye_V2.
     bind (distanceAt landmarks 362 263) (\<lambda>rightEye_H.
       let leftEAR = js_div (Finite (leftEye_V1 + leftEye_V2)) (Finite (2 * leftEye_H));
           rightEAR = js_div (Finite (rightEye_V1 + rightEye_V2)) (Finite (2 * rightEye_H))
       in Inr (js_div (js_add leftEAR rightEAR) (Finite 2))))))))"

definition calculateMAR :: "point list \<Rightarrow> error + number" where
  "calculateMAR landmarks =
     bind (distanceAt landmarks 13 14) (\<lambda>mouthVertical.
     bind (distanceAt landmarks 78 308) (\<lambda>mouthHorizontal.
       Inr (js_div (Finite mouthVertical) (Finite mouthHorizontal))))"

record headPose =
  yawRatio :: number
  pitch :: real
  roll :: real

definition calculateHeadPose :: "point list \<Rightarrow> error + headPose" where
  "calculateHeadPose landmarks =
     (case landmarkAt landmarks 1 of
        None \<Rightarrow> Inl TypeError
      | Some noseTip \<Rightarrow>
     (case landmarkAt landmarks 234 of
        None \<Rightarrow> Inl TypeError
      | Some leftCheek \<Rightarrow>
     (case landmarkAt landmarks 454 of
        None \<Rightarrow> Inl TypeError
      | Some rightCheek \<Rightarrow>
          (let leftDist = \<bar>px noseTip - px leftCheek\<bar>;
               rightDist = \<bar>px rightCheek - px noseTip\<bar>;
               safeRightDist = (if rightDist = 0 then 0.001 else rightDist)
           in Inr \<lparr>yawRatio = js_div (Finite leftDist) (Finite safeRightDist),
                    pitch = 0, roll = 0\<rparr>))))"

subsection \<open>Module state and alerts\<close>

text \<open>
  The five alert strings of the source, as tags. \<open>currentAlerts\<close> is a JavaScript
  \<open>Set\<close>: it keeps insertion order and holds no element twice, so it is a list
  here; \<open>size > 0\<close> is "the list is not empty".
\<close>

datatype alert =
    EYES_CLOSED
  | EYES_PARTIALLY_CLOSED
  | EXCESSIVE_YAWNING
  | YAWNING_DETECTED
  | HEAD_NOT_FORWARD

record state =
  faceLandmarker :: bool
  lastVideoTime :: real
  eyeClosedFrames :: nat
  eyePartiallyClosedFrames :: nat
  yawnFrames :: nat
  headTurnedFrames :: nat
  isAlertPlaying :: bool
  currentAlerts :: "alert list"

text \<open>The values the module's variables have when the script has loaded.\<close>

definition initial_state :: state where
  "initial_state =
     \<lparr>faceLandmarker = False, lastVideoTime = -1,
      eyeClosedFrames = 0, eyePartiallyClosedFrames = 0, yawnFrames = 0,
      headTurnedFrames = 0, isAlertPlaying = False, currentAlerts = []\<rparr>"

text \<open>
  \<open>startMonitoring\<close>, where model and camera load: it awaits
  \<open>initializeFaceLandmarker\<close> before the handler that calls \<open>predictWebcam\<close> is
  registered. Of the module's variables modelled here it sets \<open>faceLandmarker\<close> only.
\<close>

definition startMonitoring :: "state \<Rightarrow> state" where
  "startMonitoring st = st\<lparr>faceLandmarker := True\<rparr>"

definition set_add :: "alert \<Rightarrow> alert list \<Rightarrow> alert list" where
  "set_add a xs = (if a \<in> set xs then xs else xs @ [a])"

definition set_delete :: "alert \<Rightarrow> alert list \<Rightarrow> alert list" where
  "set_delete a xs = filter (\<lambda>b. b \<noteq> a) xs"

definition updateAlert :: "alert \<Rightarrow> bool \<Rightarrow> state \<Rightarrow> state" where
  "updateAlert type isActive st =
     (let st1 = (if isActive
                 then st\<lparr>currentAlerts := set_add type (currentAlerts st)\<rparr>
                 else st\<lparr>currentAlerts := set_delete type (currentAlerts st)\<rparr>)
      in if currentAlerts st1 \<noteq> []
         then (if \<not> isAlertPlaying st1 then st1\<lparr>isAlertPlaying := True\<rparr> else st1)
         else (if isAlertPlaying st1 then st1\<lparr>isAlertPlaying := False\<rparr> else st1))"

subsection \<open>Classification of one detected face\<close>

datatype EyeStatus = OPEN | PARTIALLY_CLOSED | CLOSED
datatype YawnStatus = NORMAL | YAWNING
datatype HeadStatus = FORWARD | TURNED
datatype DriverStatus = SAFE | DROWSY

text \<open>The arguments \<open>predictWebcam\<close> passes to \<open>updateUI\<close>.\<close>

record ui =
  ui_ear :: number
  ui_mar :: number
  ui_headPose :: headPose
  eyeStatus :: EyeStatus
  yawnStatus :: YawnStatus
  headStatus :: HeadStatus
  driverStatus :: DriverStatus

text \<open>The block "EYE STATUS DETECTION" of \<open>predictWebcam\<close>.\<close>

definition eyeStatusDetection :: "number \<Rightarrow> state \<Rightarrow> EyeStatus \<times> state" where
  "eyeStatusDetection ear st =
     (if js_lt ear (Finite EAR_THRESHOLD_CLOSED) then
        (let st1 = st\<lparr>eyeClosedFrames := eyeClosedFrames st + 1\<rparr>;
             st2 = st1\<lparr>eyePartiallyClosedFrames := 0\<rparr>
         in if CONSECUTIVE_FRAMES \<le> eyeClosedFrames st2
            then (CLOSED, updateAlert EYES_CLOSED True st2)
            else (OPEN, st2))
      else if js_lt ear (Finite EAR_THRESHOLD_PARTIALLY) then
        (let st1 = st\<lparr>eyePartiallyClosedFrames := eyePartiallyClosedFrames st + 1\<rparr>;
             st2 = st1\<lparr>eyeClosedFrames := 0\<rparr>
         in if CONSECUTIVE_FRAMES \<le> eyePartiallyClosedFrames st2
            then (PARTIALLY_CLOSED, updateAlert EYES_PARTIALLY_CLOSED True st2)
            else (OPEN, st2))
      else
        (let st1 = st\<lparr>eyeClosedFrames := 0\<rparr>;
             st2 = st1\<lparr>eyePartiallyClosedFrames := 0\<rparr>
         in (OPEN, updateAlert EYES_PARTIALLY_CLOSED False (updateAlert EYES_CLOSED False st2))))"

text \<open>The block "YAWNING DETECTION".\<close>

definition yawningDetection :: "number \<Rightarrow> state \<Rightarrow> YawnStatus \<times> state" where
  "yawningDetection mar st =
     (if js_gt mar (Finite MAR_THRESHOLD_YAWN) then
        (let st1 = st\<lparr>yawnFrames := yawnFrames st + 1\<rparr>
         in if CONSECUTIVE_FRAMES \<le> yawnFrames st1
            then (if js_gt mar (Finite MAR_THRESHOLD_ALERT)
                  then (YAWNING, updateAlert EXCESSIVE_YAWNING True st1)
                  else (YAWNING, updateAlert YAWNING_DETECTED True st1))
            else (NORMAL, st1))
      else
        (let st1 = st\<lparr>yawnFrames := 0\<rparr>
         in (NORMAL, updateAlert EXCESSIVE_YAWNING False (updateAlert YAWNING_DETECTED False st1))))"

text \<open>The block "HEAD POSTURE DETECTION".\<close>

definition headPostureDetection :: "headPose \<Rightarrow> state \<Rightarrow> HeadStatus \<times> state" where
  "headPostureDetection headPose st =
     (let isLookingLeft = js_lt (yawRatio headPose) (Finite YAW_RATIO_LEFT);
          isLookingRight = js_gt (yawRatio headPose) (Finite YAW_RATIO_RIGHT);
          headTurnAlert = (isLookingLeft \<or> isLookingRight)
      in if headTurnAlert then
           (let st1 = st\<lparr>headTurnedFrames := headTurnedFrames st + 1\<rparr>
            in if CONSECUTIVE_FRAMES \<le> headTurnedFrames st1
               then (TURNED, updateAlert HEAD_NOT_FORWARD True st1)
               else (FORWARD, st1))
         else
           (let st1 = st\<lparr>headTurnedFrames := 0\<rparr>
            in (FORWARD, updateAlert HEAD_NOT_FORWARD False st1)))"

text \<open>
  Everything \<open>predictWebcam\<close> does once the three features of a face are computed:
  the three blocks in the order of the source, then the overall driver status.
\<close>

definition classify :: "number \<Rightarrow> number \<Rightarrow> headPose \<Rightarrow> state \<Rightarrow> ui \<times> state" where
  "classify ear mar headPose st =
     (let (es, st1) = eyeStatusDetection ear st;
          (ys, st2) = yawningDetection mar st1;
          (hs, st3) = headPostureDetection headPose st2;
          ds = (if currentAlerts st3 \<noteq> [] then DROWSY else SAFE)
      in (\<lparr>ui_ear = ear, ui_mar = mar, ui_headPose = headPose, eyeStatus = es, yawnStatus = ys,
           headStatus = hs, driverStatus = ds\<rparr>, st3))"

text \<open>The three calls that open the branch for a detected face.\<close>

definition features :: "point list \<Rightarrow> error + (number \<times> number \<times> headPose)" where
  "features landmarks =
     bind (calculateEAR landmarks) (\<lambda>ear.
     bind (calculateMAR landmarks) (\<lambda>mar.
     bind (calculateHeadPose landmarks) (\<lambda>headPose. Inr (ear, mar, headPose))))"

subsection \<open>One call of \<open>predictWebcam\<close>, and the animation loop\<close>

text \<open>
  What a call reads from its environment: \<open>video.currentTime\<close> and the
  \<open>faceLandmarks\<close> field of the detector's result (\<open>None\<close> when the field is
  missing), a list of faces, each a list of landmarks.
\<close>

record frame =
  currentTime :: real
  faceLandmarks :: "point list list option"

text \<open>
  The result is the exception thrown, or the report passed to \<open>updateUI\<close> when a
  face was processed. A TypeError is thrown while the features are computed, before any
  counter is touched and after \<open>lastVideoTime\<close> was stored.
\<close>

definition predictWebcam :: "frame \<Rightarrow> state \<Rightarrow> (error + ui option) \<times> state" where
  "predictWebcam f st =
     (if \<not> faceLandmarker st then (Inr None, st)
      else if lastVideoTime st \<noteq> currentTime f then
        (let st0 = st\<lparr>lastVideoTime := currentTime f\<rparr>
         in case faceLandmarks f of
              Some (landmarks # _) \<Rightarrow>
                (case features landmarks of
                   Inl err \<Rightarrow> (Inl err, st0)
                 | Inr (ear, mar, headPose) \<Rightarrow>
                     (let (u, st1) = classify ear mar headPose st0 in (Inr (Some u), st1)))
            | _ \<Rightarrow> (Inr None, st0))
      else (Inr None, st))"

text \<open>
  The loop: each call ends by scheduling the next one with
  \<open>requestAnimationFrame\<close>. A call that throws, or that returns at once because no
  detector is loaded, does not reach that line, and the loop ends.
\<close>

fun run :: "frame list \<Rightarrow> state \<Rightarrow> state" where
  "run [] st = st"
| "run (f # fs) st =
     (if \<not> faceLandmarker st then st
      else case predictWebcam f st of
             (Inl err, st1) \<Rightarrow> st1
           | (Inr u, st1) \<Rightarrow> run fs st1)"

text \<open>
  What the user interface shows after a run: the arguments of the most recent call of
  \<open>updateUI\<close>, if there was one (\<open>r\<close> is what it showed before the run).
\<close>

fun reported :: "frame list \<Rightarrow> state \<Rightarrow> ui option \<Rightarrow> ui option" where
  "reported [] st r = r"
| "reported (f # fs) st r =
     (if \<not> faceLandmarker st then r
      else case predictWebcam f st of
             (Inl err, st1) \<Rightarrow> r
           | (Inr None, st1) \<Rightarrow> reported fs st1 r
           | (Inr (Some u), st1) \<Rightarrow> reported fs st1 (Some u))"

subsection \<open>\<open>stopMonitoring\<close>\<close>

definition stopMonitoring :: "state \<Rightarrow> state" where
  "stopMonitoring st =
     (let st1 = (if isAlertPlaying st then st\<lparr>isAlertPlaying := False\<rparr> else st);
          st2 = st1\<lparr>currentAlerts := []\<rparr>;
          st3 = st2\<lparr>eyeClosedFrames := 0\<rparr>;
          st4 = st3\<lparr>eyePartiallyClosedFrames := 0\<rparr>;
          st5 = st4\<lparr>yawnFrames := 0\<rparr>
      in st5\<lparr>headTurnedFrames := 0\<rparr>)"

subsection \<open>Describing frames\<close>

text \<open>
  The detector found no face: the test \<open>results.faceLandmarks &&
  results.faceLandmarks.length > 0\<close> fails.
\<close>

definition noFace :: "frame \<Rightarrow> bool" where
  "noFace f = (faceLandmarks f = None \<or> faceLandmarks f = Some [])"

text \<open>
  The features of the first face of a frame, when there is a face and its landmark array
  is long enough for every index the extractors read.
\<close>

definition frame_features :: "frame \<Rightarrow> (number \<times> number \<times> headPose) option" where
  "frame_features f =
     (case faceLandmarks f of
        Some (landmarks # _) \<Rightarrow>
          (case features landmarks of Inl err \<Rightarrow> None | Inr v \<Rightarrow> Some v)
      | _ \<Rightarrow> None)"

definition frame_ear :: "frame \<Rightarrow> number option" where
  "frame_ear f = map_option fst (frame_features f)"

definition frame_mar :: "frame \<Rightarrow> number option" where
  "frame_mar f = map_option (\<lambda>v. fst (snd v)) (frame_features f)"

text \<open>
  Detection runs on a frame only when \<open>video.currentTime\<close> differs from the time
  stored by the previous call: \<open>fresh t fs\<close> says that every frame of \<open>fs\<close> is a new
  video frame, \<open>t\<close> being the time stored before the first of them.
\<close>

fun fresh :: "real \<Rightarrow> frame list \<Rightarrow> bool" where
  "fresh t [] = True"
| "fresh t (f # fs) = (currentTime f \<noteq> t \<and> fresh (currentTime f) fs)"

text \<open>The state in which the first frame arrives: script loaded, monitoring started.\<close>

definition started :: state where
  "started = startMonitoring initial_state"

subsection \<open>Notions used in the statements\<close>

text \<open>
  The locals \<open>leftDist\<close> and \<open>rightDist\<close> of \<open>calculateHeadPose\<close>, for a landmark
  array that has the indices 1, 234 and 454.
\<close>

definition leftDist :: "point list \<Rightarrow> real" where
  "leftDist landmarks = \<bar>px (landmarks ! 1) - px (landmarks ! 234)\<bar>"

definition rightDist :: "point list \<Rightarrow> real" where
  "rightDist landmarks = \<bar>px (landmarks ! 454) - px (landmarks ! 1)\<bar>"

text \<open>
  The full three-dimensional distance between two landmarks of an array, written out, and
  the projection of a landmark onto the x axis.
\<close>

definition landmarkDistance :: "point list \<Rightarrow> nat \<Rightarrow> nat \<Rightarrow> real" where
  "landmarkDistance landmarks i j =
     sqrt ((px (landmarks ! i) - px (landmarks ! j))\<^sup>2 +
           (py (landmarks ! i) - py (landmarks ! j))\<^sup>2 +
           (pz (landmarks ! i) - pz (landmarks ! j))\<^sup>2)"

definition flatten :: "point \<Rightarrow> point" where
  "flatten p = p\<lparr>py := 0, pz := 0\<rparr>"

text \<open>
  Kinds of detected frames: the eye aspect ratio is below \<open>EAR_THRESHOLD_CLOSED\<close>; it is
  not, but is below \<open>EAR_THRESHOLD_PARTIALLY\<close>; the mouth aspect ratio is above
  \<open>MAR_THRESHOLD_YAWN\<close>.
\<close>

definition eyesClosedFrame :: "frame \<Rightarrow> bool" where
  "eyesClosedFrame f =
     (case frame_ear f of None \<Rightarrow> False | Some e \<Rightarrow> js_lt e (Finite EAR_THRESHOLD_CLOSED))"

definition eyesPartialFrame :: "frame \<Rightarrow> bool" where
  "eyesPartialFrame f =
     (case frame_ear f of
        None \<Rightarrow> False
      | Some e \<Rightarrow> \<not> js_lt e (Finite EAR_THRESHOLD_CLOSED) \<and>
                  js_lt e (Finite EAR_THRESHOLD_PARTIALLY))"

definition yawningFrame :: "frame \<Rightarrow> bool" where
  "yawningFrame f =
     (case frame_mar f of None \<Rightarrow> False | Some m \<Rightarrow> js_gt m (Finite MAR_THRESHOLD_YAWN))"

subsection \<open>The yaw ratio in the words of the specification\<close>

text \<open>
  Two variants of the yaw ratio that are not in the source, for comparison with
  \<open>calculateHeadPose\<close>. The first follows the specification's formula
  \<open>leftDist / max(rightDist, \<epsilon>)\<close> with \<open>\<epsilon> = 0.001\<close> on the horizontal distances. The
  second takes the two distances as three-dimensional Euclidean distances, as the
  specification's sentence on distance computations asks of every extractor.
\<close>

definition DIVISION_EPSILON :: real where "DIVISION_EPSILON = 0.001"

definition headYawRatio_spec :: "point list \<Rightarrow> error + number" where
  "headYawRatio_spec landmarks =
     (case landmarkAt landmarks 1 of
        None \<Rightarrow> Inl TypeError
      | Some noseTip \<Rightarrow>
     (case landmarkAt landmarks 234 of
        None \<Rightarrow> Inl TypeError
      | Some leftCheek \<Rightarrow>
     (case landmarkAt landmarks 454 of
        None \<Rightarrow> Inl TypeError
      | Some rightCheek \<Rightarrow>
          (let leftDist = \<bar>px noseTip - px leftCheek\<bar>;
               rightDist = \<bar>px rightCheek - px noseTip\<bar>
           in Inr (js_div (Finite leftDist) (Finite (max rightDist DIVISION_EPSILON)))))))"

definition headYawRatio_3D :: "point list \<Rightarrow> error + number" where
  "headYawRatio_3D landmarks =
     (case landmarkAt landmarks 1 of
        None \<Rightarrow> Inl TypeError
      | Some noseTip \<Rightarrow>
     (case landmarkAt landmarks 234 of
        None \<Rightarrow> Inl TypeError
      | Some leftCheek \<Rightarrow>
     (case landmarkAt landmarks 454 of
        None \<Rightarrow> Inl TypeError
      | Some rightCheek \<Rightarrow>
          (let leftDist = euclideanDistance noseTip leftCheek;
               rightDist = euclideanDistance rightCheek noseTip
           in Inr (js_div (Finite leftDist) (Finite (max rightDist DIVISION_EPSILON)))))))"

subsection \<open>Test frames\<close>

text \<open>
  A synthetic face of 478 landmarks, all at the origin except those listed: both eyes
  have width 1 and lid gaps \<open>v\<close>, the mouth has width 1 and opening \<open>w\<close>, the left
  cheek is at \<open>x = 0\<close>, the right cheek at \<open>x = 1\<close> and the nose tip at \<open>x = n\<close>.
\<close>

definition origin :: point where
  "origin = \<lparr>px = 0, py = 0, pz = 0\<rparr>"

definition face :: "real \<Rightarrow> real \<Rightarrow> real \<Rightarrow> point list" where
  "face v w n =
     (replicate 478 origin)
       [133 := \<lparr>px = 1, py = 0, pz = 0\<rparr>,
        160 := \<lparr>px = 0, py = v, pz = 0\<rparr>,
        158 := \<lparr>px = 0, py = v, pz = 0\<rparr>,
        263 := \<lparr>px = 1, py = 0, pz = 0\<rparr>,
        385 := \<lparr>px = 0, py = v, pz = 0\<rparr>,
        387 := \<lparr>px = 0, py = v, pz = 0\<rparr>,
        13 := \<lparr>px = 0, py = w, pz = 0\<rparr>,
        308 := \<lparr>px = 1, py = 0, pz = 0\<rparr>,
        1 := \<lparr>px = n, py = 0, pz = 0\<rparr>,
        454 := \<lparr>px = 1, py = 0, pz = 0\<rparr>]"

definition faceFrame :: "real \<Rightarrow> real \<Rightarrow> real \<Rightarrow> real \<Rightarrow> frame" where
  "faceFrame t v w n = \<lparr>currentTime = t, faceLandmarks = Some [face v w n]\<rparr>"

definition noFaceFrame :: "real \<Rightarrow> frame" where
  "noFaceFrame t = \<lparr>currentTime = t, faceLandmarks = Some []\<rparr>"

text \<open>
  Frames \<open>i, \<dots>, j - 1\<close> of a video that shows the same synthetic face, frame \<open>k\<close> at
  time \<open>k\<close>.
\<close>

definition faceFrames :: "nat \<Rightarrow> nat \<Rightarrow> real \<Rightarrow> real \<Rightarrow> real \<Rightarrow> frame list" where
  "faceFrames i j v w n = map (\<lambda>k. faceFrame (real k) v w n) [i..<j]"

text \<open>A detected face all of whose landmarks coincide.\<close>

definition degenerateFrame :: "real \<Rightarrow> frame" where
  "degenerateFrame t = \<lparr>currentTime = t, faceLandmarks = Some [replicate 478 origin]\<rparr>"

text \<open>
  A face whose nose tip is horizontally centred between the cheeks while the left cheek
  lies higher: nose tip \<open>(0.5, 0.5, 0)\<close>, left cheek \<open>(0.2, 0.1, 0)\<close>, right cheek
  \<open>(0.8, 0.5, 0)\<close>.
\<close>

definition tiltedFace :: "point list" where
  "tiltedFace =
     (replicate 478 origin)
       [1 := \<lparr>px = 0.5, py = 0.5, pz = 0\<rparr>,
        234 := \<lparr>px = 0.2, py = 0.1, pz = 0\<rparr>,
        454 := \<lparr>px = 0.8, py = 0.5, pz = 0\<rparr>]"

section \<open>Basic facts\<close>

lemmas thresholds =
  EAR_THRESHOLD_CLOSED_def EAR_THRESHOLD_PARTIALLY_def MAR_THRESHOLD_YAWN_def
  MAR_THRESHOLD_ALERT_def YAW_RATIO_LEFT_def YAW_RATIO_RIGHT_def CONSECUTIVE_FRAMES_def

lemma started_eq:
  "started = \<lparr>faceLandmarker = True, lastVideoTime = -1,
      eyeClosedFrames = 0, eyePartiallyClosedFrames = 0, yawnFrames = 0,
      headTurnedFrames = 0, isAlertPlaying = False, currentAlerts = []\<rparr>"
  by (simp add: started_def startMonitoring_def initial_state_def)

subsection \<open>The alert set\<close>

lemma set_set_add [simp]: "set (set_add a xs) = insert a (set xs)"
  by (auto simp: set_add_def)

lemma set_set_delete [simp]: "set (set_delete a xs) = set xs - {a}"
  by (auto simp: set_delete_def)

lemma updateAlert_fields [simp]:
  "faceLandmarker (updateAlert t b st) = faceLandmarker st"
  "lastVideoTime (updateAlert t b st) = lastVideoTime st"
  "eyeClosedFrames (updateAlert t b st) = eyeClosedFrames st"
  "eyePartiallyClosedFrames (updateAlert t b st) = eyePartiallyClosedFrames st"
  "yawnFrames (updateAlert t b st) = yawnFrames st"
  "headTurnedFrames (updateAlert t b st) = headTurnedFrames st"
  by (simp_all add: updateAlert_def Let_def)

lemma updateAlert_alerts [simp]:
  "currentAlerts (updateAlert t b st) =
     (if b then set_add t (currentAlerts st) else set_delete t (currentAlerts st))"
  by (simp add: updateAlert_def Let_def)

lemma updateAlert_playing [simp]:
  "isAlertPlaying (updateAlert t b st) = (currentAlerts (updateAlert t b st) \<noteq> [])"
  by (simp add: updateAlert_def Let_def)

lemma eye_fields [simp]:
  "faceLandmarker (snd (eyeStatusDetection e st)) = faceLandmarker st"
  "lastVideoTime (snd (eyeStatusDetection e st)) = lastVideoTime st"
  "yawnFrames (snd (eyeStatusDetection e st)) = yawnFrames st"
  "headTurnedFrames (snd (eyeStatusDetection e st)) = headTurnedFrames st"
  by (simp_all add: eyeStatusDetection_def Let_def)

lemma yawn_fields [simp]:
  "faceLandmarker (snd (yawningDetection m st)) = faceLandmarker st"
  "lastVideoTime (snd (yawningDetection m st)) = lastVideoTime st"
  "eyeClosedFrames (snd (yawningDetection m st)) = eyeClosedFrames st"
  "eyePartiallyClosedFrames (snd (yawningDetection m st)) = eyePartiallyClosedFrames st"
  "headTurnedFrames (snd (yawningDetection m st)) = headTurnedFrames st"
  by (simp_all add: yawningDetection_def Let_def)

lemma head_fields [simp]:
  "faceLandmarker (snd (headPostureDetection hp st)) = faceLandmarker st"
  "lastVideoTime (snd (headPostureDetection hp st)) = lastVideoTime st"
  "eyeClosedFrames (snd (headPostureDetection hp st)) = eyeClosedFrames st"
  "eyePartiallyClosedFrames (snd (headPostureDetection hp st)) = eyePartiallyClosedFrames st"
  "yawnFrames (snd (headPostureDetection hp st)) = yawnFrames st"
  by (simp_all add: headPostureDetection_def Let_def)

lemma classify_snd:
  "snd (classify e m hp st) =
     snd (headPostureDetection hp (snd (yawningDetection m (snd (eyeStatusDetection e st)))))"
  by (simp add: classify_def Let_def split_beta)

lemma classify_driverStatus:
  "driverStatus (fst (classify e m hp st)) =
     (if currentAlerts (snd (classify e m hp st)) \<noteq> [] then DROWSY else SAFE)"
  by (simp add: classify_def Let_def split_beta)

lemma eye_counters_exclusive:
  "eyeClosedFrames (snd (eyeStatusDetection e st)) = 0 \<or>
   eyePartiallyClosedFrames (snd (eyeStatusDetection e st)) = 0"
  by (simp add: eyeStatusDetection_def Let_def)

subsection \<open>One detected face\<close>

lemma eye_alerts:
  "set (currentAlerts (snd (eyeStatusDetection e st))) =
     (if js_lt e (Finite EAR_THRESHOLD_CLOSED) then
        (if CONSECUTIVE_FRAMES \<le> eyeClosedFrames st + 1
         then insert EYES_CLOSED (set (currentAlerts st)) else set (currentAlerts st))
      else if js_lt e (Finite EAR_THRESHOLD_PARTIALLY) then
        (if CONSECUTIVE_FRAMES \<le> eyePartiallyClosedFrames st + 1
         then insert EYES_PARTIALLY_CLOSED (set (currentAlerts st)) else set (currentAlerts st))
      else set (currentAlerts st) - {EYES_CLOSED, EYES_PARTIALLY_CLOSED})"
  by (auto simp add: eyeStatusDetection_def Let_def)

lemma yawn_alerts:
  "set (currentAlerts (snd (yawningDetection m st))) =
     (if js_gt m (Finite MAR_THRESHOLD_YAWN) then
        (if CONSECUTIVE_FRAMES \<le> yawnFrames st + 1
         then (if js_gt m (Finite MAR_THRESHOLD_ALERT)
               then insert EXCESSIVE_YAWNING (set (currentAlerts st))
               else insert YAWNING_DETECTED (set (currentAlerts st)))
         else set (currentAlerts st))
      else set (currentAlerts st) - {YAWNING_DETECTED, EXCESSIVE_YAWNING})"
  by (auto simp add: yawningDetection_def Let_def)

lemma head_alerts:
  "set (currentAlerts (snd (headPostureDetection hp st))) =
     (if js_lt (yawRatio hp) (Finite YAW_RATIO_LEFT) \<or> js_gt (yawRatio hp) (Finite YAW_RATIO_RIGHT) then
        (if CONSECUTIVE_FRAMES \<le> headTurnedFrames st + 1
         then insert HEAD_NOT_FORWARD (set (currentAlerts st)) else set (currentAlerts st))
      else set (currentAlerts st) - {HEAD_NOT_FORWARD})"
  by (auto simp add: headPostureDetection_def Let_def)

lemma eye_counters:
  "eyeClosedFrames (snd (eyeStatusDetection e st)) =
     (if js_lt e (Finite EAR_THRESHOLD_CLOSED) then eyeClosedFrames st + 1 else 0)"
  "eyePartiallyClosedFrames (snd (eyeStatusDetection e st)) =
     (if js_lt e (Finite EAR_THRESHOLD_CLOSED) then 0
      else if js_lt e (Finite EAR_THRESHOLD_PARTIALLY) then eyePartiallyClosedFrames st + 1 else 0)"
  by (simp_all add: eyeStatusDetection_def Let_def)

lemma eye_status:
  "fst (eyeStatusDetection e st) =
     (if js_lt e (Finite EAR_THRESHOLD_CLOSED) then
        (if CONSECUTIVE_FRAMES \<le> eyeClosedFrames st + 1 then CLOSED else OPEN)
      else if js_lt e (Finite EAR_THRESHOLD_PARTIALLY) then
        (if CONSECUTIVE_FRAMES \<le> eyePartiallyClosedFrames st + 1 then PARTIALLY_CLOSED else OPEN)
      else OPEN)"
  by (simp add: eyeStatusDetection_def Let_def)

lemma yawn_counter:
  "yawnFrames (snd (yawningDetection m st)) =
     (if js_gt m (Finite MAR_THRESHOLD_YAWN) then yawnFrames st + 1 else 0)"
  by (simp add: yawningDetection_def Let_def)

lemma yawn_status:
  "fst (yawningDetection m st) =
     (if js_gt m (Finite MAR_THRESHOLD_YAWN) \<and> CONSECUTIVE_FRAMES \<le> yawnFrames st + 1
      then YAWNING else NORMAL)"
  by (simp add: yawningDetection_def Let_def)

lemma head_counter:
  "headTurnedFrames (snd (headPostureDetection hp st)) =
     (if js_lt (yawRatio hp) (Finite YAW_RATIO_LEFT) \<or> js_gt (yawRatio hp) (Finite YAW_RATIO_RIGHT)
      then headTurnedFrames st + 1 else 0)"
  by (simp add: headPostureDetection_def Let_def)

lemma classify_eyeStatus:
  "eyeStatus (fst (classify e m hp st)) = fst (eyeStatusDetection e st)"
  by (simp add: classify_def Let_def split_beta)

lemma classify_yawnStatus:
  "yawnStatus (fst (classify e m hp st)) = fst (yawningDetection m (snd (eyeStatusDetection e st)))"
  by (simp add: classify_def Let_def split_beta)

lemma predictWebcam_detected:
  assumes "faceLandmarker st" "lastVideoTime st \<noteq> currentTime f"
      and "frame_features f = Some (e, m, hp)"
  shows "predictWebcam f st =
           (Inr (Some (fst (classify e m hp (st\<lparr>lastVideoTime := currentTime f\<rparr>)))),
            snd (classify e m hp (st\<lparr>lastVideoTime := currentTime f\<rparr>)))"
  using assms
  by (auto simp: predictWebcam_def frame_features_def Let_def split_beta
           split: option.splits list.splits sum.splits)

lemma predictWebcam_noFace:
  assumes "noFace f"
  shows "predictWebcam f st =
           (Inr None, if faceLandmarker st \<and> lastVideoTime st \<noteq> currentTime f
                      then st\<lparr>lastVideoTime := currentTime f\<rparr> else st)"
  using assms by (auto simp: predictWebcam_def noFace_def Let_def)

lemma predictWebcam_cases:
  "snd (predictWebcam f st) = st \<or>
   snd (predictWebcam f st) = st\<lparr>lastVideoTime := currentTime f\<rparr> \<or>
   (\<exists>e m hp. snd (predictWebcam f st) = snd (classify e m hp (st\<lparr>lastVideoTime := currentTime f\<rparr>)))"
  by (auto simp: predictWebcam_def Let_def split_beta
           split: option.splits list.splits sum.splits)

subsection \<open>Runs of frames\<close>

lemma classify_fields [simp]:
  "faceLandmarker (snd (classify e m hp st)) = faceLandmarker st"
  "lastVideoTime (snd (classify e m hp st)) = lastVideoTime st"
  by (simp_all add: classify_snd)

lemma classify_counters:
  "eyeClosedFrames (snd (classify e m hp st)) =
     (if js_lt e (Finite EAR_THRESHOLD_CLOSED) then eyeClosedFrames st + 1 else 0)"
  "eyePartiallyClosedFrames (snd (classify e m hp st)) =
     (if js_lt e (Finite EAR_THRESHOLD_CLOSED) then 0
      else if js_lt e (Finite EAR_THRESHOLD_PARTIALLY) then eyePartiallyClosedFrames st + 1 else 0)"
  "yawnFrames (snd (classify e m hp st)) =
     (if js_gt m (Finite MAR_THRESHOLD_YAWN) then yawnFrames st + 1 else 0)"
  by (simp_all add: classify_snd eye_counters yawn_counter)

lemma classify_eye_alerts:
  "EYES_CLOSED \<in> set (currentAlerts (snd (classify e m hp st))) \<longleftrightarrow>
     (if js_lt e (Finite EAR_THRESHOLD_CLOSED)
      then EYES_CLOSED \<in> set (currentAlerts st) \<or> CONSECUTIVE_FRAMES \<le> eyeClosedFrames st + 1
      else js_lt e (Finite EAR_THRESHOLD_PARTIALLY) \<and> EYES_CLOSED \<in> set (currentAlerts st))"
  "EYES_PARTIALLY_CLOSED \<in> set (currentAlerts (snd (classify e m hp st))) \<longleftrightarrow>
     (if js_lt e (Finite EAR_THRESHOLD_CLOSED)
      then EYES_PARTIALLY_CLOSED \<in> set (currentAlerts st)
      else js_lt e (Finite EAR_THRESHOLD_PARTIALLY) \<and>
           (EYES_PARTIALLY_CLOSED \<in> set (currentAlerts st) \<or>
            CONSECUTIVE_FRAMES \<le> eyePartiallyClosedFrames st + 1))"
  by (auto simp add: classify_snd head_alerts yawn_alerts eye_alerts)

lemma classify_yawn_alerts:
  "EXCESSIVE_YAWNING \<in> set (currentAlerts (snd (classify e m hp st))) \<longleftrightarrow>
     js_gt m (Finite MAR_THRESHOLD_YAWN) \<and>
     (EXCESSIVE_YAWNING \<in> set (currentAlerts st) \<or>
      CONSECUTIVE_FRAMES \<le> yawnFrames st + 1 \<and> js_gt m (Finite MAR_THRESHOLD_ALERT))"
  "YAWNING_DETECTED \<in> set (currentAlerts (snd (classify e m hp st))) \<longleftrightarrow>
     js_gt m (Finite MAR_THRESHOLD_YAWN) \<and>
     (YAWNING_DETECTED \<in> set (currentAlerts st) \<or>
      CONSECUTIVE_FRAMES \<le> yawnFrames st + 1 \<and> \<not> js_gt m (Finite MAR_THRESHOLD_ALERT))"
  by (auto simp add: classify_snd head_alerts yawn_alerts eye_alerts)

lemma predictWebcam_faceLandmarker [simp]:
  "faceLandmarker (snd (predictWebcam f st)) = faceLandmarker st"
  using predictWebcam_cases [of f st] by auto

lemma predictWebcam_lastVideoTime:
  "faceLandmarker st \<Longrightarrow> lastVideoTime (snd (predictWebcam f st)) = currentTime f"
  by (auto simp: predictWebcam_def Let_def split_beta
           split: option.splits list.splits sum.splits)

lemma run_Cons_ok:
  assumes "faceLandmarker st" "fst (predictWebcam f st) = Inr u"
  shows "run (f # fs) st = run fs (snd (predictWebcam f st))"
  using assms by (cases "predictWebcam f st") simp

lemma predictWebcam_ok:
  assumes "noFace f \<or> frame_features f \<noteq> None"
  shows "\<exists>u. fst (predictWebcam f st) = Inr u"
  using assms
  by (auto simp: predictWebcam_def noFace_def frame_features_def Let_def split_beta
           split: option.splits list.splits sum.splits)

lemma run_faceLandmarker [simp]: "faceLandmarker (run fs st) = faceLandmarker st"
proof (induction fs arbitrary: st)
  case Nil
  show ?case by simp
next
  case (Cons f fs)
  obtain r st1 where p: "predictWebcam f st = (r, st1)" by (cases "predictWebcam f st")
  then have "faceLandmarker st1 = faceLandmarker st"
    using predictWebcam_faceLandmarker [of f st] by simp
  with p Cons.IH [of st1] show ?case by (cases r) simp_all
qed

lemma run_append:
  assumes "faceLandmarker st" "\<forall>f\<in>set fs. noFace f \<or> frame_features f \<noteq> None"
  shows "run (fs @ gs) st = run gs (run fs st)"
  using assms
proof (induction fs arbitrary: st)
  case Nil
  show ?case by simp
next
  case (Cons f fs)
  from Cons.prems obtain u where u: "fst (predictWebcam f st) = Inr u"
    using predictWebcam_ok [of f st] by auto
  have fl: "faceLandmarker (snd (predictWebcam f st))" using Cons.prems by simp
  have "run ((f # fs) @ gs) st = run (fs @ gs) (snd (predictWebcam f st))"
    using run_Cons_ok [OF Cons.prems(1) u] by simp
  also have "\<dots> = run gs (run fs (snd (predictWebcam f st)))"
    using Cons.IH [OF fl] Cons.prems(2) by simp
  also have "\<dots> = run gs (run (f # fs) st)"
    using run_Cons_ok [OF Cons.prems(1) u] by simp
  finally show ?case .
qed

lemma run_lastVideoTime:
  assumes "faceLandmarker st" "\<forall>f\<in>set fs. noFace f \<or> frame_features f \<noteq> None"
  shows "lastVideoTime (run fs st) = (if fs = [] then lastVideoTime st else currentTime (last fs))"
  using assms
proof (induction fs arbitrary: st)
  case Nil
  show ?case by simp
next
  case (Cons f fs)
  from Cons.prems obtain u where u: "fst (predictWebcam f st) = Inr u"
    using predictWebcam_ok [of f st] by auto
  have fl: "faceLandmarker (snd (predictWebcam f st))" using Cons.prems by simp
  show ?case
    using run_Cons_ok [OF Cons.prems(1) u, of fs] Cons.IH [OF fl] Cons.prems
      predictWebcam_lastVideoTime [of st f]
    by simp
qed

lemma run_sustained:
  fixes P :: "frame \<Rightarrow> bool" and cnt :: "state \<Rightarrow> nat" and a :: alert
  assumes step: "\<And>f st. faceLandmarker st \<Longrightarrow> lastVideoTime st \<noteq> currentTime f \<Longrightarrow> P f \<Longrightarrow>
            (\<exists>u. fst (predictWebcam f st) = Inr u) \<and>
            cnt (snd (predictWebcam f st)) = cnt st + 1 \<and>
            (a \<in> set (currentAlerts (snd (predictWebcam f st))) \<longleftrightarrow>
               a \<in> set (currentAlerts st) \<or> CONSECUTIVE_FRAMES \<le> cnt st + 1)"
    and skip: "\<And>st t. cnt (st\<lparr>lastVideoTime := t\<rparr>) = cnt st"
    and excl: "\<And>f. P f \<Longrightarrow> \<not> noFace f"
    and "faceLandmarker st" "fresh (lastVideoTime st) fs" "\<forall>f\<in>set fs. noFace f \<or> P f"
  shows "cnt (run fs st) = cnt st + length (filter (\<lambda>f. \<not> noFace f) fs) \<and>
         (a \<in> set (currentAlerts (run fs st)) \<longleftrightarrow>
            a \<in> set (currentAlerts st) \<or>
            (\<exists>f\<in>set fs. \<not> noFace f) \<and>
            CONSECUTIVE_FRAMES \<le> cnt st + length (filter (\<lambda>f. \<not> noFace f) fs))"
  using assms(4-)
proof (induction fs arbitrary: st)
  case Nil
  show ?case by simp
next
  case (Cons f fs)
  let ?st1 = "snd (predictWebcam f st)"
  have fr: "lastVideoTime st \<noteq> currentTime f" and fr': "fresh (currentTime f) fs"
    using Cons.prems(2) by auto
  have fl: "faceLandmarker ?st1" using Cons.prems(1) by simp
  have lt: "lastVideoTime ?st1 = currentTime f"
    using predictWebcam_lastVideoTime [OF Cons.prems(1)] .
  have rest: "\<forall>f\<in>set fs. noFace f \<or> P f" using Cons.prems(3) by simp
  note IH = Cons.IH [OF fl, unfolded lt, OF fr' rest]
  show ?case
  proof (cases "noFace f")
    case True
    then have p: "predictWebcam f st = (Inr None, st\<lparr>lastVideoTime := currentTime f\<rparr>)"
      using predictWebcam_noFace [of f st] Cons.prems(1) fr by simp
    then have r: "run (f # fs) st = run fs ?st1"
      using Cons.prems(1) by simp
    from p have "cnt ?st1 = cnt st" "currentAlerts ?st1 = currentAlerts st"
      by (simp_all add: skip)
    with IH r True show ?thesis by simp
  next
    case False
    then have "P f" using Cons.prems(3) by auto
    from step [OF Cons.prems(1) fr this] obtain u where
      u: "fst (predictWebcam f st) = Inr u" and
      c: "cnt ?st1 = cnt st + 1" and
      al: "a \<in> set (currentAlerts ?st1) \<longleftrightarrow>
             a \<in> set (currentAlerts st) \<or> CONSECUTIVE_FRAMES \<le> cnt st + 1"
      by blast
    have r: "run (f # fs) st = run fs ?st1"
      using run_Cons_ok [OF Cons.prems(1) u] .
    show ?thesis
      unfolding r using IH False c al by (auto simp: CONSECUTIVE_FRAMES_def)
  qed
qed

subsection \<open>The test frames\<close>

lemma landmarkAt_face:
  "landmarkAt (face v w n) 160 = Some \<lparr>px = 0, py = v, pz = 0\<rparr>"
  "landmarkAt (face v w n) 144 = Some origin"
  "landmarkAt (face v w n) 158 = Some \<lparr>px = 0, py = v, pz = 0\<rparr>"
  "landmarkAt (face v w n) 153 = Some origin"
  "landmarkAt (face v w n) 33 = Some origin"
  "landmarkAt (face v w n) 133 = Some \<lparr>px = 1, py = 0, pz = 0\<rparr>"
  "landmarkAt (face v w n) 385 = Some \<lparr>px = 0, py = v, pz = 0\<rparr>"
  "landmarkAt (face v w n) 380 = Some origin"
  "landmarkAt (face v w n) 387 = Some \<lparr>px = 0, py = v, pz = 0\<rparr>"
  "landmarkAt (face v w n) 373 = Some origin"
  "landmarkAt (face v w n) 362 = Some origin"
  "landmarkAt (face v w n) 263 = Some \<lparr>px = 1, py = 0, pz = 0\<rparr>"
  "landmarkAt (face v w n) 13 = Some \<lparr>px = 0, py = w, pz = 0\<rparr>"
  "landmarkAt (face v w n) 14 = Some origin"
  "landmarkAt (face v w n) 78 = Some origin"
  "landmarkAt (face v w n) 308 = Some \<lparr>px = 1, py = 0, pz = 0\<rparr>"
  "landmarkAt (face v w n) (Suc 0) = Some \<lparr>px = n, py = 0, pz = 0\<rparr>"
  "landmarkAt (face v w n) 234 = Some origin"
  "landmarkAt (face v w n) 454 = Some \<lparr>px = 1, py = 0, pz = 0\<rparr>"
  by (simp_all add: landmarkAt_def face_def)

lemma calculateEAR_face: "calculateEAR (face v w n) = Inr (Finite \<bar>v\<bar>)"
  by (simp add: calculateEAR_def bind_def distanceAt_def landmarkAt_face
        euclideanDistance_def origin_def Let_def)

lemma calculateMAR_face: "calculateMAR (face v w n) = Inr (Finite \<bar>w\<bar>)"
  by (simp add: calculateMAR_def bind_def distanceAt_def landmarkAt_face
        euclideanDistance_def origin_def Let_def)

lemma calculateHeadPose_face:
  "calculateHeadPose (face v w n) =
     Inr \<lparr>yawRatio = Finite (\<bar>n\<bar> / (if n = 1 then 0.001 else \<bar>1 - n\<bar>)), pitch = 0, roll = 0\<rparr>"
  by (simp add: calculateHeadPose_def landmarkAt_face origin_def Let_def)

lemma frame_features_faceFrame:
  "frame_features (faceFrame t v w n) =
     Some (Finite \<bar>v\<bar>, Finite \<bar>w\<bar>,
          \<lparr>yawRatio = Finite (\<bar>n\<bar> / (if n = 1 then 0.001 else \<bar>1 - n\<bar>)), pitch = 0, roll = 0\<rparr>)"
  by (simp add: frame_features_def faceFrame_def features_def bind_def
        calculateEAR_face calculateMAR_face calculateHeadPose_face)

lemma currentTime_faceFrame [simp]: "currentTime (faceFrame t v w n) = t"
  by (simp add: faceFrame_def)

lemma length_face [simp]: "length (face v w n) = 478"
  by (simp add: face_def)

lemma leftDist_face: "leftDist (face v w n) = \<bar>n\<bar>"
  using landmarkAt_face(17,18) [of v w n]
  by (simp add: leftDist_def landmarkAt_def origin_def split: if_splits)

lemma rightDist_face: "rightDist (face v w n) = \<bar>1 - n\<bar>"
  using landmarkAt_face(17,19) [of v w n]
  by (simp add: rightDist_def landmarkAt_def split: if_splits)

lemma frame_ear_faceFrame: "frame_ear (faceFrame t v w n) = Some (Finite \<bar>v\<bar>)"
  by (simp add: frame_ear_def frame_features_faceFrame)

lemma frame_mar_faceFrame: "frame_mar (faceFrame t v w n) = Some (Finite \<bar>w\<bar>)"
  by (simp add: frame_mar_def frame_features_faceFrame)

lemma length_faceFrames [simp]: "length (faceFrames i j v w n) = j - i"
  by (simp add: faceFrames_def)

lemma faceFrames_all:
  "(\<forall>f\<in>set (faceFrames i j v w n). P f) \<longleftrightarrow> (\<forall>k\<in>{i..<j}. P (faceFrame (real k) v w n))"
  by (auto simp: faceFrames_def)

lemma faceFrames_ne [simp]: "faceFrames i j v w n = [] \<longleftrightarrow> j \<le> i"
  by (auto simp add: faceFrames_def)

lemma last_faceFrames:
  "i < j \<Longrightarrow> last (faceFrames i j v w n) = faceFrame (real (j - 1)) v w n"
  by (cases j) (simp_all add: faceFrames_def)

lemma fresh_faceFrames:
  "fresh t (faceFrames i j v w n) \<longleftrightarrow> (i < j \<longrightarrow> t \<noteq> real i)"
proof (induction "j - i" arbitrary: i t)
  case 0
  then show ?case by (simp add: faceFrames_def)
next
  case (Suc d)
  then have "i < j" "d = j - Suc i" by auto
  with Suc.hyps(1) [of "Suc i" "real i"] show ?case
    by (auto simp add: faceFrames_def upt_conv_Cons)
qed

lemma noFace_noFaceFrame [simp]: "noFace (noFaceFrame t)"
  by (simp add: noFace_def noFaceFrame_def)

lemma currentTime_noFaceFrame [simp]: "currentTime (noFaceFrame t) = t"
  by (simp add: noFaceFrame_def)

lemma features_degenerate:
  "features (replicate 478 origin) =
     Inr (NaN, NaN, \<lparr>yawRatio = Finite 0, pitch = 0, roll = 0\<rparr>)"
  by (simp add: features_def calculateEAR_def calculateMAR_def calculateHeadPose_def bind_def
        distanceAt_def landmarkAt_def euclideanDistance_def origin_def Let_def)

lemma frame_features_degenerate:
  "frame_features (degenerateFrame t) =
     Some (NaN, NaN, \<lparr>yawRatio = Finite 0, pitch = 0, roll = 0\<rparr>)"
  by (simp add: frame_features_def degenerateFrame_def features_degenerate)

lemma currentTime_degenerateFrame: "currentTime (degenerateFrame t) = t"
  by (simp add: degenerateFrame_def)

lemma eyesClosedFrame_faceFrame:
  "eyesClosedFrame (faceFrame t v w n) \<longleftrightarrow> \<bar>v\<bar> < EAR_THRESHOLD_CLOSED"
  by (simp add: eyesClosedFrame_def frame_ear_faceFrame)

lemma eyesPartialFrame_faceFrame:
  "eyesPartialFrame (faceFrame t v w n) \<longleftrightarrow>
     \<not> \<bar>v\<bar> < EAR_THRESHOLD_CLOSED \<and> \<bar>v\<bar> < EAR_THRESHOLD_PARTIALLY"
  by (simp add: eyesPartialFrame_def frame_ear_faceFrame)

lemma yawningFrame_faceFrame:
  "yawningFrame (faceFrame t v w n) \<longleftrightarrow> MAR_THRESHOLD_YAWN < \<bar>w\<bar>"
  by (simp add: yawningFrame_def frame_mar_faceFrame js_gt_def)

subsection \<open>Frames and their features\<close>

lemma frame_ear_SomeD:
  "frame_ear f = Some e \<Longrightarrow> \<exists>m hp. frame_features f = Some (e, m, hp)"
  by (auto simp: frame_ear_def)

lemma frame_mar_SomeD:
  "frame_mar f = Some m \<Longrightarrow> \<exists>e hp. frame_features f = Some (e, m, hp)"
  by (auto simp: frame_mar_def)

lemma frame_features_not_noFace: "frame_features f = Some v \<Longrightarrow> \<not> noFace f"
  by (auto simp: frame_features_def noFace_def split: option.splits list.splits)

lemma eyesClosedFrameD:
  "eyesClosedFrame f \<Longrightarrow>
   \<exists>e m hp. frame_features f = Some (e, m, hp) \<and> js_lt e (Finite EAR_THRESHOLD_CLOSED)"
  by (auto simp: eyesClosedFrame_def split: option.splits dest: frame_ear_SomeD)

lemma eyesClosedFrame_not_noFace: "eyesClosedFrame f \<Longrightarrow> \<not> noFace f"
  using eyesClosedFrameD frame_features_not_noFace by blast

lemma eyesPartialFrameD:
  "eyesPartialFrame f \<Longrightarrow>
   \<exists>e m hp. frame_features f = Some (e, m, hp) \<and> \<not> js_lt e (Finite EAR_THRESHOLD_CLOSED) \<and>
             js_lt e (Finite EAR_THRESHOLD_PARTIALLY)"
  by (auto simp: eyesPartialFrame_def split: option.splits dest: frame_ear_SomeD)

lemma yawningFrameD:
  "yawningFrame f \<Longrightarrow>
   \<exists>e m hp. frame_features f = Some (e, m, hp) \<and> js_gt m (Finite MAR_THRESHOLD_YAWN)"
  by (auto simp: yawningFrame_def split: option.splits dest: frame_mar_SomeD)

lemma filter_detected:
  "\<forall>f\<in>set fs. \<not> noFace f \<Longrightarrow> filter (\<lambda>f. \<not> noFace f) fs = fs"
  by (induction fs) auto

lemma not_js_lt_iff: "\<not> js_lt e (Finite c) \<longleftrightarrow> js_ge e (Finite c) \<or> e = NaN"
  by (cases e) simp_all

lemma predictWebcam_snd:
  "snd (predictWebcam f st) =
     (if faceLandmarker st \<and> lastVideoTime st \<noteq> currentTime f then
        (case frame_features f of
           Some (e, m, hp) \<Rightarrow> snd (classify e m hp (st\<lparr>lastVideoTime := currentTime f\<rparr>))
         | None \<Rightarrow> st\<lparr>lastVideoTime := currentTime f\<rparr>)
      else st)"
  by (auto simp: predictWebcam_def frame_features_def Let_def split_beta
           split: option.splits list.splits sum.splits)

subsection \<open>Fresh video times\<close>

lemma fresh_append:
  "fresh t (fs @ gs) \<longleftrightarrow>
     fresh t fs \<and> fresh (if fs = [] then t else currentTime (last fs)) gs"
  by (induction fs arbitrary: t) auto

lemma fresh_take: "fresh t fs \<Longrightarrow> fresh t (take k fs)"
  using fresh_append [of t "take k fs" "drop k fs"] by simp

lemma run_next_fresh:
  assumes "faceLandmarker st" "\<forall>f\<in>set fs. noFace f \<or> frame_features f \<noteq> None"
    and "fresh (lastVideoTime st) (fs @ [g])"
  shows "lastVideoTime (run fs st) \<noteq> currentTime g"
  using assms(3) run_lastVideoTime [OF assms(1,2)] by (auto simp: fresh_append)

lemma run_snoc:
  assumes "faceLandmarker st" "\<forall>f\<in>set fs. noFace f \<or> frame_features f \<noteq> None"
    and "noFace g \<or> frame_features g \<noteq> None"
  shows "run (fs @ [g]) st = snd (predictWebcam g (run fs st))"
proof -
  obtain u where "fst (predictWebcam g (run fs st)) = Inr u"
    using predictWebcam_ok [OF assms(3)] by blast
  then have "run [g] (run fs st) = snd (predictWebcam g (run fs st))"
    using run_Cons_ok [of "run fs st" g u "[]"] assms(1) by simp
  then show ?thesis using run_append [OF assms(1,2)] by simp
qed

subsection \<open>Sustained conditions\<close>

text \<open>
  Three schemes over a counter \<open>cnt\<close> and frames of a kind \<open>P\<close>: what a run of such
  frames does once each single frame is known to count up; what it leaves alone while the
  counter stays below the threshold; and what no frame of a run changes.
\<close>

lemma run_accumulating:
  fixes P :: "frame \<Rightarrow> bool" and cnt :: "state \<Rightarrow> nat" and Q :: "state \<Rightarrow> 'b"
  assumes step: "\<And>f st. faceLandmarker st \<Longrightarrow> lastVideoTime st \<noteq> currentTime f \<Longrightarrow> P f \<Longrightarrow>
            (\<exists>u. fst (predictWebcam f st) = Inr u) \<and>
            cnt (snd (predictWebcam f st)) = cnt st + 1 \<and>
            (cnt st + 1 < CONSECUTIVE_FRAMES \<longrightarrow> Q (snd (predictWebcam f st)) = Q st)"
    and skip: "\<And>st t. cnt (st\<lparr>lastVideoTime := t\<rparr>) = cnt st \<and> Q (st\<lparr>lastVideoTime := t\<rparr>) = Q st"
    and "faceLandmarker st" "fresh (lastVideoTime st) fs" "\<forall>f\<in>set fs. P f"
    and "cnt st + length fs < CONSECUTIVE_FRAMES"
  shows "cnt (run fs st) = cnt st + length fs \<and> Q (run fs st) = Q st"
  using assms(3-)
proof (induction fs arbitrary: st)
  case Nil
  show ?case by simp
next
  case (Cons f fs)
  let ?st1 = "snd (predictWebcam f st)"
  have fr: "lastVideoTime st \<noteq> currentTime f" and fr': "fresh (currentTime f) fs"
    using Cons.prems(2) by auto
  have fl: "faceLandmarker ?st1" using Cons.prems(1) by simp
  have lt: "lastVideoTime ?st1 = currentTime f"
    using predictWebcam_lastVideoTime [OF Cons.prems(1)] .
  have "P f" and rest: "\<forall>f\<in>set fs. P f" using Cons.prems(3) by simp_all
  from step [OF Cons.prems(1) fr \<open>P f\<close>] Cons.prems(4) obtain u where
    u: "fst (predictWebcam f st) = Inr u" and
    c: "cnt ?st1 = cnt st + 1" and q: "Q ?st1 = Q st"
    by auto
  have r: "run (f # fs) st = run fs ?st1"
    using run_Cons_ok [OF Cons.prems(1) u] .
  have b: "cnt ?st1 + length fs < CONSECUTIVE_FRAMES" using c Cons.prems(4) by simp
  from Cons.IH [OF fl, unfolded lt, OF fr' rest b] show ?case
    unfolding r using c q by simp
qed

lemma run_preserved:
  assumes "\<And>f st. f \<in> set fs \<Longrightarrow> Q (snd (predictWebcam f st)) = Q st"
  shows "Q (run fs st) = Q st"
  using assms
proof (induction fs arbitrary: st)
  case Nil
  show ?case by simp
next
  case (Cons f fs)
  obtain r st1 where p: "predictWebcam f st = (r, st1)" by (cases "predictWebcam f st")
  have q1: "Q st1 = Q st" using Cons.prems [of f st] p by simp
  have "Q (run fs st1) = Q st1" using Cons.IH Cons.prems by simp
  with p q1 show ?case by (cases r) simp_all
qed

lemma run_eyes_closed:
  assumes "faceLandmarker st" "fresh (lastVideoTime st) fs"
    and "\<forall>f\<in>set fs. noFace f \<or> eyesClosedFrame f"
  shows "eyeClosedFrames (run fs st) =
           eyeClosedFrames st + length (filter (\<lambda>f. \<not> noFace f) fs) \<and>
         (EYES_CLOSED \<in> set (currentAlerts (run fs st)) \<longleftrightarrow>
            EYES_CLOSED \<in> set (currentAlerts st) \<or>
            (\<exists>f\<in>set fs. \<not> noFace f) \<and>
            CONSECUTIVE_FRAMES \<le> eyeClosedFrames st + length (filter (\<lambda>f. \<not> noFace f) fs))"
proof (rule run_sustained [where P = eyesClosedFrame, OF _ _ _ assms])
  fix f :: frame and st :: state
  assume a: "faceLandmarker st" "lastVideoTime st \<noteq> currentTime f" "eyesClosedFrame f"
  from eyesClosedFrameD [OF a(3)] obtain e m hp where
    ff: "frame_features f = Some (e, m, hp)" and lt: "js_lt e (Finite EAR_THRESHOLD_CLOSED)"
    by blast
  show "(\<exists>u. fst (predictWebcam f st) = Inr u) \<and>
        eyeClosedFrames (snd (predictWebcam f st)) = eyeClosedFrames st + 1 \<and>
        (EYES_CLOSED \<in> set (currentAlerts (snd (predictWebcam f st))) \<longleftrightarrow>
           EYES_CLOSED \<in> set (currentAlerts st) \<or> CONSECUTIVE_FRAMES \<le> eyeClosedFrames st + 1)"
    by (simp add: predictWebcam_detected [OF a(1,2) ff] classify_counters classify_eye_alerts lt)
next
  fix st :: state and t
  show "eyeClosedFrames (st\<lparr>lastVideoTime := t\<rparr>) = eyeClosedFrames st" by simp
next
  fix f assume "eyesClosedFrame f"
  then show "\<not> noFace f" using eyesClosedFrameD frame_features_not_noFace by blast
qed

lemma run_eyes_partial:
  assumes "faceLandmarker st" "fresh (lastVideoTime st) fs"
    and "\<forall>f\<in>set fs. noFace f \<or> eyesPartialFrame f"
  shows "eyePartiallyClosedFrames (run fs st) =
           eyePartiallyClosedFrames st + length (filter (\<lambda>f. \<not> noFace f) fs) \<and>
         (EYES_PARTIALLY_CLOSED \<in> set (currentAlerts (run fs st)) \<longleftrightarrow>
            EYES_PARTIALLY_CLOSED \<in> set (currentAlerts st) \<or>
            (\<exists>f\<in>set fs. \<not> noFace f) \<and>
            CONSECUTIVE_FRAMES \<le>
              eyePartiallyClosedFrames st + length (filter (\<lambda>f. \<not> noFace f) fs))"
proof (rule run_sustained [where P = eyesPartialFrame and cnt = eyePartiallyClosedFrames
      and a = EYES_PARTIALLY_CLOSED, OF _ _ _ assms])
  fix f :: frame and st :: state
  assume a: "faceLandmarker st" "lastVideoTime st \<noteq> currentTime f" "eyesPartialFrame f"
  from eyesPartialFrameD [OF a(3)] obtain e m hp where
    ff: "frame_features f = Some (e, m, hp)" and
    lt: "\<not> js_lt e (Finite EAR_THRESHOLD_CLOSED)" "js_lt e (Finite EAR_THRESHOLD_PARTIALLY)"
    by blast
  show "(\<exists>u. fst (predictWebcam f st) = Inr u) \<and>
        eyePartiallyClosedFrames (snd (predictWebcam f st)) = eyePartiallyClosedFrames st + 1 \<and>
        (EYES_PARTIALLY_CLOSED \<in> set (currentAlerts (snd (predictWebcam f st))) \<longleftrightarrow>
           EYES_PARTIALLY_CLOSED \<in> set (currentAlerts st) \<or>
           CONSECUTIVE_FRAMES \<le> eyePartiallyClosedFrames st + 1)"
    by (simp add: predictWebcam_detected [OF a(1,2) ff] classify_counters classify_eye_alerts lt)
next
  fix st :: state and t
  show "eyePartiallyClosedFrames (st\<lparr>lastVideoTime := t\<rparr>) = eyePartiallyClosedFrames st"
    by simp
next
  fix f assume "eyesPartialFrame f"
  then show "\<not> noFace f" using eyesPartialFrameD frame_features_not_noFace by blast
qed

lemma run_yawning:
  assumes "faceLandmarker st" "fresh (lastVideoTime st) fs" "\<forall>f\<in>set fs. yawningFrame f"
    and "yawnFrames st + length fs < CONSECUTIVE_FRAMES"
  shows "yawnFrames (run fs st) = yawnFrames st + length fs \<and>
         (EXCESSIVE_YAWNING \<in> set (currentAlerts (run fs st)),
          YAWNING_DETECTED \<in> set (currentAlerts (run fs st))) =
         (EXCESSIVE_YAWNING \<in> set (currentAlerts st), YAWNING_DETECTED \<in> set (currentAlerts st))"
proof (rule run_accumulating [where P = yawningFrame and cnt = yawnFrames
      and Q = "\<lambda>st. (EXCESSIVE_YAWNING \<in> set (currentAlerts st),
                     YAWNING_DETECTED \<in> set (currentAlerts st))", OF _ _ assms])
  fix f :: frame and st :: state
  assume a: "faceLandmarker st" "lastVideoTime st \<noteq> currentTime f" "yawningFrame f"
  from yawningFrameD [OF a(3)] obtain e m hp where
    ff: "frame_features f = Some (e, m, hp)" and gt: "js_gt m (Finite MAR_THRESHOLD_YAWN)"
    by blast
  show "(\<exists>u. fst (predictWebcam f st) = Inr u) \<and>
        yawnFrames (snd (predictWebcam f st)) = yawnFrames st + 1 \<and>
        (yawnFrames st + 1 < CONSECUTIVE_FRAMES \<longrightarrow>
         (EXCESSIVE_YAWNING \<in> set (currentAlerts (snd (predictWebcam f st))),
          YAWNING_DETECTED \<in> set (currentAlerts (snd (predictWebcam f st)))) =
         (EXCESSIVE_YAWNING \<in> set (currentAlerts st), YAWNING_DETECTED \<in> set (currentAlerts st)))"
    by (simp add: predictWebcam_detected [OF a(1,2) ff] classify_counters classify_yawn_alerts gt)
next
  fix st :: state and t
  show "yawnFrames (st\<lparr>lastVideoTime := t\<rparr>) = yawnFrames st \<and>
        (EXCESSIVE_YAWNING \<in> set (currentAlerts (st\<lparr>lastVideoTime := t\<rparr>)),
         YAWNING_DETECTED \<in> set (currentAlerts (st\<lparr>lastVideoTime := t\<rparr>))) =
        (EXCESSIVE_YAWNING \<in> set (currentAlerts st), YAWNING_DETECTED \<in> set (currentAlerts st))"
    by simp
qed

subsection \<open>The head pose\<close>

lemma calculateHeadPose_eq:
  assumes "454 < length landmarks"
  shows "calculateHeadPose landmarks =
           Inr \<lparr>yawRatio = Finite (leftDist landmarks /
                    (if rightDist landmarks = 0 then 0.001 else rightDist landmarks)),
                pitch = 0, roll = 0\<rparr>"
  using assms
  by (simp add: calculateHeadPose_def landmarkAt_def leftDist_def rightDist_def Let_def)

lemma max_epsilon_nonzero [simp]: "max r DIVISION_EPSILON \<noteq> 0"
  by (simp add: DIVISION_EPSILON_def max_def)

lemma headYawRatio_spec_eq:
  assumes "454 < length landmarks"
  shows "headYawRatio_spec landmarks =
           Inr (Finite (leftDist landmarks / max (rightDist landmarks) DIVISION_EPSILON))"
  using assms
  by (simp add: headYawRatio_spec_def landmarkAt_def leftDist_def rightDist_def Let_def
        )

lemma headYawRatio_spec_face:
  "headYawRatio_spec (face v w n) = Inr (Finite (\<bar>n\<bar> / max \<bar>1 - n\<bar> DIVISION_EPSILON))"
  by (simp add: headYawRatio_spec_def landmarkAt_face origin_def Let_def)

lemma distanceAt_eq:
  "i < length landmarks \<Longrightarrow> j < length landmarks \<Longrightarrow>
   distanceAt landmarks i j = Inr (landmarkDistance landmarks i j)"
  by (simp add: distanceAt_def landmarkAt_def euclideanDistance_def landmarkDistance_def
        Let_def power2_eq_square)

lemma tilted_left:
  "euclideanDistance \<lparr>px = 1 / 2, py = 1 / 2, pz = 0\<rparr> \<lparr>px = 1 / 5, py = 1 / 10, pz = 0\<rparr> = 1 / 2"
  unfolding euclideanDistance_def Let_def
  by (rule real_sqrt_unique) (simp_all add: power2_eq_square)

lemma tilted_right:
  "euclideanDistance \<lparr>px = 4 / 5, py = 1 / 2, pz = 0\<rparr> \<lparr>px = 1 / 2, py = 1 / 2, pz = 0\<rparr> = 3 / 10"
  unfolding euclideanDistance_def Let_def
  by (rule real_sqrt_unique) (simp_all add: power2_eq_square)

section \<open>The claims\<close>

subsection \<open>C1: the driver status\<close>

lemma predictWebcam_report:
  assumes "predictWebcam f st = (Inr (Some u), st')"
  shows "driverStatus u = (if currentAlerts st' \<noteq> [] then DROWSY else SAFE)"
proof -
  from assms obtain e m hp where
    "(u, st') = classify e m hp (st\<lparr>lastVideoTime := currentTime f\<rparr>)"
    by (auto simp: predictWebcam_def Let_def split_beta
             split: if_splits option.splits list.splits sum.splits)
  then have "u = fst (classify e m hp (st\<lparr>lastVideoTime := currentTime f\<rparr>))"
    and "st' = snd (classify e m hp (st\<lparr>lastVideoTime := currentTime f\<rparr>))"
    by (metis fst_conv, metis snd_conv)
  then show ?thesis by (simp only: classify_driverStatus)
qed

lemma predictWebcam_silent:
  assumes "fst (predictWebcam f st) = Inr None \<or> (\<exists>err. fst (predictWebcam f st) = Inl err)"
  shows "currentAlerts (snd (predictWebcam f st)) = currentAlerts st"
  using assms
  by (auto simp: predictWebcam_def Let_def split_beta
           split: if_splits option.splits list.splits sum.splits)

lemma reported_consistent:
  assumes "r = None \<or> (\<exists>u. r = Some u \<and>
             driverStatus u = (if currentAlerts st \<noteq> [] then DROWSY else SAFE))"
    and "reported fs st r = Some u"
  shows "driverStatus u = (if currentAlerts (run fs st) \<noteq> [] then DROWSY else SAFE)"
  using assms
proof (induction fs arbitrary: st r)
  case Nil
  then show ?case by auto
next
  case (Cons f fs)
  show ?case
  proof (cases "faceLandmarker st")
    case False
    with Cons.prems show ?thesis by auto
  next
    case True
    obtain res st1 where p: "predictWebcam f st = (res, st1)" by (cases "predictWebcam f st")
    show ?thesis
    proof (cases res)
      case (Inl err)
      then have "currentAlerts st1 = currentAlerts st"
        using predictWebcam_silent [of f st] p by simp
      with Cons.prems p True Inl show ?thesis by auto
    next
      case (Inr v)
      show ?thesis
      proof (cases v)
        case None
        then have "currentAlerts st1 = currentAlerts st"
          using predictWebcam_silent [of f st] p Inr by simp
        with Cons.prems(1) have c: "r = None \<or> (\<exists>u. r = Some u \<and>
             driverStatus u = (if currentAlerts st1 \<noteq> [] then DROWSY else SAFE))"
          by simp
        from Cons.prems(2) p True Inr None have "reported fs st1 r = Some u" by simp
        from Cons.IH [OF c this] p True Inr None show ?thesis by simp
      next
        case (Some w)
        with p Inr have "predictWebcam f st = (Inr (Some w), st1)" by simp
        from predictWebcam_report [OF this]
        have c: "Some w = None \<or> (\<exists>u. Some w = Some u \<and>
             driverStatus u = (if currentAlerts st1 \<noteq> [] then DROWSY else SAFE))"
          by simp
        from Cons.prems(2) p True Inr Some have "reported fs st1 (Some w) = Some u" by simp
        from Cons.IH [OF c this] p True Inr Some show ?thesis by simp
      qed
    qed
  qed
qed

lemma reported_detected:
  assumes "faceLandmarker st" "fresh (lastVideoTime st) fs"
    and "\<forall>f\<in>set fs. frame_features f \<noteq> None" "fs \<noteq> [] \<or> r \<noteq> None"
  shows "\<exists>u. reported fs st r = Some u"
  using assms
proof (induction fs arbitrary: st r)
  case Nil
  then show ?case by auto
next
  case (Cons f fs)
  from Cons.prems obtain e m hp where ff: "frame_features f = Some (e, m, hp)" by fastforce
  have ne: "lastVideoTime st \<noteq> currentTime f" using Cons.prems(2) by simp
  let ?st0 = "st\<lparr>lastVideoTime := currentTime f\<rparr>"
  note p = predictWebcam_detected [OF Cons.prems(1) ne ff]
  have "\<exists>u. reported fs (snd (classify e m hp ?st0)) (Some (fst (classify e m hp ?st0))) = Some u"
    using Cons.prems by (intro Cons.IH) simp_all
  then show ?case using p Cons.prems(1) by simp
qed

text \<open>
  C1. In every state reached from the start state by processing any sequence of frames
  \<open>fs\<close>, the driver status last reported to the user interface is \<open>DROWSY\<close> if and
  only if \<open>currentAlerts\<close> is not empty, and \<open>SAFE\<close> otherwise.
\<close>

theorem driverStatus_iff_alerts:
  assumes "reported fs started None = Some u"
  shows "(driverStatus u = DROWSY \<longleftrightarrow> currentAlerts (run fs started) \<noteq> []) \<and>
         (driverStatus u = SAFE \<longleftrightarrow> currentAlerts (run fs started) = [])"
  using reported_consistent [OF _ assms] by simp

theorem driverStatus_iff_alerts_witness:
  "(\<exists>u. reported (faceFrames 0 15 0.1 0.1 0.5) started None = Some u \<and>
        driverStatus u = DROWSY) \<and>
   currentAlerts (run (faceFrames 0 15 0.1 0.1 0.5) started) \<noteq> []"
proof -
  let ?fs = "faceFrames 0 15 0.1 0.1 0.5"
  have fl: "faceLandmarker started" by (simp add: started_eq)
  have fr: "fresh (lastVideoTime started) ?fs" by (simp add: fresh_faceFrames started_eq)
  have wf: "\<forall>f\<in>set ?fs. frame_features f \<noteq> None"
    by (simp add: faceFrames_all frame_features_faceFrame)
  have cl: "\<forall>f\<in>set ?fs. noFace f \<or> eyesClosedFrame f"
    by (simp add: faceFrames_all eyesClosedFrame_faceFrame thresholds)
  have nn: "\<forall>f\<in>set ?fs. \<not> noFace f"
    using cl eyesClosedFrame_not_noFace
    by (simp add: faceFrames_all eyesClosedFrame_faceFrame thresholds)
  have ex: "\<exists>f\<in>set ?fs. \<not> noFace f"
    using nn by (simp add: faceFrames_def upt_conv_Cons)
  have "EYES_CLOSED \<in> set (currentAlerts (run ?fs started))"
    using run_eyes_closed [OF fl fr cl] nn ex
    by (simp add: filter_detected thresholds started_eq)
  then have al: "currentAlerts (run ?fs started) \<noteq> []" by auto
  from reported_detected [OF fl fr wf] obtain u where
    u: "reported ?fs started None = Some u" by auto
  from driverStatus_iff_alerts [OF u] al u show ?thesis by simp
qed

subsection \<open>C2: closing and opening the eyes\<close>

text \<open>
  C2. From the start state, fifteen consecutive detected frames with \<open>ear = 0.10\<close>:
  the eye status reported is \<open>OPEN\<close> on frames 1 to 14 and \<open>CLOSED\<close> on frame 15, and
  the alert \<open>EYES_CLOSED\<close> is active after \<open>k \<le> 15\<close> of them exactly when \<open>k = 15\<close>.
  A sixteenth frame with \<open>ear = 0.50\<close> is reported \<open>OPEN\<close> and removes the alert at
  once.
\<close>

theorem eyes_closed_debounce:
  assumes len: "length fs = 15"
    and closed: "\<forall>f\<in>set fs. frame_ear f = Some (Finite 0.10)"
    and opened: "frame_ear g = Some (Finite 0.50)"
    and fr: "fresh (lastVideoTime started) (fs @ [g])"
  shows "(\<forall>k<15. \<exists>u. fst (predictWebcam (fs ! k) (run (take k fs) started)) = Inr (Some u) \<and>
                     eyeStatus u = (if k = 14 then CLOSED else OPEN)) \<and>
         (\<forall>k\<le>15. EYES_CLOSED \<in> set (currentAlerts (run (take k fs) started)) \<longleftrightarrow> k = 15) \<and>
         (\<exists>u. fst (predictWebcam g (run fs started)) = Inr (Some u) \<and> eyeStatus u = OPEN) \<and>
         EYES_CLOSED \<notin> set (currentAlerts (run (fs @ [g]) started))"
proof -
  have fl: "faceLandmarker started" by (simp add: started_eq)
  have ec: "eyesClosedFrame f" if "f \<in> set fs" for f
    using closed that by (simp add: eyesClosedFrame_def thresholds)
  have nn: "\<not> noFace f" if "f \<in> set fs" for f
    using ec [OF that] eyesClosedFrameD frame_features_not_noFace by blast
  have wf: "\<forall>f\<in>set (take k fs). noFace f \<or> frame_features f \<noteq> None" for k
    using ec eyesClosedFrameD by (fastforce dest: in_set_takeD)
  have frs: "fresh (lastVideoTime started) fs" using fr by (simp add: fresh_append)
  have state: "eyeClosedFrames (run (take k fs) started) = k \<and>
      (EYES_CLOSED \<in> set (currentAlerts (run (take k fs) started)) \<longleftrightarrow> k = 15)"
    if "k \<le> 15" for k
  proof -
    have all: "\<forall>f\<in>set (take k fs). noFace f \<or> eyesClosedFrame f"
      using ec by (auto dest: in_set_takeD)
    have flt: "filter (\<lambda>f. \<not> noFace f) (take k fs) = take k fs"
      using nn by (auto dest: in_set_takeD intro: filter_True)
    from that len have ne: "k = 15 \<Longrightarrow> \<exists>f\<in>set (take k fs). \<not> noFace f"
      using nn by (cases fs) auto
    show ?thesis
      using run_eyes_closed [OF fl fresh_take [OF frs, of k] all] that len ne
      by (auto simp: flt started_eq thresholds)
  qed
  have report: "\<exists>u. fst (predictWebcam (fs ! k) (run (take k fs) started)) = Inr (Some u) \<and>
                     eyeStatus u = (if k = 14 then CLOSED else OPEN)" if "k < 15" for k
  proof -
    let ?st = "run (take k fs) started"
    from that len have mem: "fs ! k \<in> set fs" by simp
    from closed mem obtain m hp where
      ff: "frame_features (fs ! k) = Some (Finite 0.10, m, hp)"
      using frame_ear_SomeD by blast
    have tk: "take (Suc k) fs = take k fs @ [fs ! k]"
      using that len by (simp add: take_Suc_conv_app_nth)
    have "fresh (lastVideoTime started) (take k fs @ [fs ! k])"
      using fresh_take [OF frs, of "Suc k"] tk by simp
    then have ne: "lastVideoTime ?st \<noteq> currentTime (fs ! k)"
      using run_next_fresh [OF fl wf] by blast
    have cnt: "eyeClosedFrames ?st = k" using state [of k] that by simp
    show ?thesis
      using that
      by (simp add: predictWebcam_detected [OF _ ne ff] fl classify_eyeStatus eye_status cnt
            thresholds)
  qed
  have wf15: "\<forall>f\<in>set fs. noFace f \<or> frame_features f \<noteq> None"
    using wf [of 15] len by simp
  from opened obtain m hp where gf: "frame_features g = Some (Finite 0.50, m, hp)"
    using frame_ear_SomeD by blast
  have neg: "lastVideoTime (run fs started) \<noteq> currentTime g"
    using run_next_fresh [OF fl wf15 fr] .
  have pg: "predictWebcam g (run fs started) =
      (Inr (Some (fst (classify (Finite 0.50) m hp ((run fs started)\<lparr>lastVideoTime := currentTime g\<rparr>)))),
       snd (classify (Finite 0.50) m hp ((run fs started)\<lparr>lastVideoTime := currentTime g\<rparr>)))"
    using predictWebcam_detected [OF _ neg gf] fl by simp
  have g1: "\<exists>u. fst (predictWebcam g (run fs started)) = Inr (Some u) \<and> eyeStatus u = OPEN"
    by (simp add: pg classify_eyeStatus eye_status thresholds)
  have "run (fs @ [g]) started = snd (predictWebcam g (run fs started))"
    using run_snoc [OF fl wf15] gf by simp
  then have g2: "EYES_CLOSED \<notin> set (currentAlerts (run (fs @ [g]) started))"
    by (simp add: pg classify_eye_alerts thresholds)
  from state report g1 g2 show ?thesis by blast
qed

theorem eyes_closed_debounce_witness:
  "length (faceFrames 0 15 0.10 0.1 0.5) = 15 \<and>
   list_all (\<lambda>f. frame_ear f = Some (Finite 0.10)) (faceFrames 0 15 0.10 0.1 0.5) \<and>
   frame_ear (faceFrame 15 0.50 0.1 0.5) = Some (Finite 0.50) \<and>
   fresh (lastVideoTime started) (faceFrames 0 15 0.10 0.1 0.5 @ [faceFrame 15 0.50 0.1 0.5]) \<and>
   (\<exists>u. fst (predictWebcam (faceFrames 0 15 0.10 0.1 0.5 ! 14)
              (run (take 14 (faceFrames 0 15 0.10 0.1 0.5)) started)) = Inr (Some u) \<and>
        eyeStatus u = CLOSED) \<and>
   (\<exists>u. fst (predictWebcam (faceFrames 0 15 0.10 0.1 0.5 ! 13)
              (run (take 13 (faceFrames 0 15 0.10 0.1 0.5)) started)) = Inr (Some u) \<and>
        eyeStatus u = OPEN) \<and>
   EYES_CLOSED \<in> set (currentAlerts (run (faceFrames 0 15 0.10 0.1 0.5) started)) \<and>
   EYES_CLOSED \<notin> set (currentAlerts (run (take 14 (faceFrames 0 15 0.10 0.1 0.5)) started)) \<and>
   (\<exists>u. fst (predictWebcam (faceFrame 15 0.50 0.1 0.5)
              (run (faceFrames 0 15 0.10 0.1 0.5) started)) = Inr (Some u) \<and>
        eyeStatus u = OPEN) \<and>
   EYES_CLOSED \<notin> set (currentAlerts
      (run (faceFrames 0 15 0.10 0.1 0.5 @ [faceFrame 15 0.50 0.1 0.5]) started))"
proof -
  let ?fs = "faceFrames 0 15 0.10 0.1 0.5" and ?g = "faceFrame 15 0.50 0.1 0.5"
  have h1: "length ?fs = 15" by simp
  have h2: "\<forall>f\<in>set ?fs. frame_ear f = Some (Finite 0.10)"
    by (simp add: faceFrames_all frame_ear_faceFrame)
  have h3: "frame_ear ?g = Some (Finite 0.50)" by (simp add: frame_ear_faceFrame)
  have h4: "fresh (lastVideoTime started) (?fs @ [?g])"
    by (simp add: fresh_append fresh_faceFrames last_faceFrames started_eq)
  note t = eyes_closed_debounce [OF h1 h2 h3 h4]
  note t1 = t [THEN conjunct1, rule_format]
    and t2 = t [THEN conjunct2, THEN conjunct1, rule_format]
    and t3 = t [THEN conjunct2, THEN conjunct2]
  have c1: "\<exists>u. fst (predictWebcam (?fs ! 14) (run (take 14 ?fs) started)) = Inr (Some u) \<and>
        eyeStatus u = CLOSED"
    using t1 [of 14] by simp
  have c2: "\<exists>u. fst (predictWebcam (?fs ! 13) (run (take 13 ?fs) started)) = Inr (Some u) \<and>
        eyeStatus u = OPEN"
    using t1 [of 13] by simp
  have c3: "EYES_CLOSED \<in> set (currentAlerts (run ?fs started))"
    using t2 [of 15] by simp
  have c4: "EYES_CLOSED \<notin> set (currentAlerts (run (take 14 ?fs) started))"
    using t2 [of 14] by simp
  from h1 h2 h3 h4 c1 c2 c3 c4 t3 show ?thesis
    unfolding list_all_iff by blast
qed

subsection \<open>C3: frames without a face\<close>

text \<open>
  C3. A frame in which the detector finds no face reports nothing and leaves the four
  counters and the alert set as they are, whatever the state. In particular, when such a
  frame comes between the tenth and the eleventh of fifteen closed-eye frames, the
  closed-eye counter stays at 10 across it, reaches 15 on the last frame, and the alert
  \<open>EYES_CLOSED\<close> becomes active there and not before.
\<close>

theorem no_face_freezes:
  assumes nf: "noFace nf"
    and len: "length fs1 = 10" "length fs2 = 5"
    and closed: "\<forall>f\<in>set (fs1 @ fs2). eyesClosedFrame f"
    and fr: "fresh (lastVideoTime started) (fs1 @ [nf] @ fs2)"
  shows "(\<forall>st. fst (predictWebcam nf st) = Inr None \<and>
               eyeClosedFrames (snd (predictWebcam nf st)) = eyeClosedFrames st \<and>
               eyePartiallyClosedFrames (snd (predictWebcam nf st)) = eyePartiallyClosedFrames st \<and>
               yawnFrames (snd (predictWebcam nf st)) = yawnFrames st \<and>
               headTurnedFrames (snd (predictWebcam nf st)) = headTurnedFrames st \<and>
               currentAlerts (snd (predictWebcam nf st)) = currentAlerts st) \<and>
         eyeClosedFrames (run fs1 started) = 10 \<and>
         eyeClosedFrames (run (fs1 @ [nf]) started) = 10 \<and>
         eyeClosedFrames (run (fs1 @ [nf] @ fs2) started) = 15 \<and>
         EYES_CLOSED \<in> set (currentAlerts (run (fs1 @ [nf] @ fs2) started)) \<and>
         (\<forall>k<16. EYES_CLOSED \<notin> set (currentAlerts (run (take k (fs1 @ [nf] @ fs2)) started)))"
proof -
  let ?L = "fs1 @ [nf] @ fs2"
  have fl: "faceLandmarker started" by (simp add: started_eq)
  have one: "fst (predictWebcam nf st) = Inr None \<and>
               eyeClosedFrames (snd (predictWebcam nf st)) = eyeClosedFrames st \<and>
               eyePartiallyClosedFrames (snd (predictWebcam nf st)) = eyePartiallyClosedFrames st \<and>
               yawnFrames (snd (predictWebcam nf st)) = yawnFrames st \<and>
               headTurnedFrames (snd (predictWebcam nf st)) = headTurnedFrames st \<and>
               currentAlerts (snd (predictWebcam nf st)) = currentAlerts st" for st
    by (simp add: predictWebcam_noFace [OF nf])
  have d1: "\<forall>f\<in>set fs1. \<not> noFace f" and d2: "\<forall>f\<in>set fs2. \<not> noFace f"
    using closed eyesClosedFrame_not_noFace by auto
  have cnt: "length (filter (\<lambda>f. \<not> noFace f) (take k ?L)) =
               (if k \<le> 10 then k else min (k - 1) 15)" for k
  proof -
    have t1: "filter (\<lambda>f. \<not> noFace f) (take k fs1) = take k fs1"
      using d1 by (intro filter_detected) (auto dest: in_set_takeD)
    have t2: "filter (\<lambda>f. \<not> noFace f) (take j fs2) = take j fs2" for j
      using d2 by (intro filter_detected) (auto dest: in_set_takeD)
    show ?thesis
      using nf len by (auto simp: take_Cons' t1 t2)
  qed
  have ex: "(\<exists>f\<in>set (take k ?L). \<not> noFace f) \<longleftrightarrow> 0 < k" for k
  proof (cases k)
    case 0
    then show ?thesis by simp
  next
    case (Suc j)
    from len obtain a fs1' where "fs1 = a # fs1'" by (cases fs1) auto
    with Suc d1 show ?thesis by auto
  qed
  have pre: "eyeClosedFrames (run (take k ?L) started) = (if k \<le> 10 then k else min (k - 1) 15) \<and>
             (EYES_CLOSED \<in> set (currentAlerts (run (take k ?L) started)) \<longleftrightarrow> 16 \<le> k)" for k
  proof -
    have all: "\<forall>f\<in>set (take k ?L). noFace f \<or> eyesClosedFrame f"
      using closed nf by (auto dest!: in_set_takeD)
    show ?thesis
      using run_eyes_closed [OF fl fresh_take [OF fr, of k] all]
      by (auto simp only: cnt ex started_eq thresholds state.simps list.set empty_iff
            split: if_splits)
  qed
  have k10: "take 10 ?L = fs1" and k11: "take 11 ?L = fs1 @ [nf]" and k16: "take 16 ?L = ?L"
    using len by simp_all
  have a: "eyeClosedFrames (run fs1 started) = 10" using pre [of 10] by (simp only: k10) simp
  have b: "eyeClosedFrames (run (fs1 @ [nf]) started) = 10"
    using pre [of 11] by (simp only: k11) simp
  have c: "eyeClosedFrames (run ?L started) = 15 \<and>
           EYES_CLOSED \<in> set (currentAlerts (run ?L started))"
    using pre [of 16] by (simp only: k16) simp
  have d: "\<forall>k<16. EYES_CLOSED \<notin> set (currentAlerts (run (take k ?L) started))"
    using pre by auto
  from one a b c d show ?thesis by blast
qed

theorem no_face_freezes_witness:
  "noFace (noFaceFrame 10) \<and>
   length (faceFrames 0 10 0.1 0.1 0.5) = 10 \<and>
   length (faceFrames 11 16 0.1 0.1 0.5) = 5 \<and>
   list_all eyesClosedFrame (faceFrames 0 10 0.1 0.1 0.5 @ faceFrames 11 16 0.1 0.1 0.5) \<and>
   fresh (lastVideoTime started)
     (faceFrames 0 10 0.1 0.1 0.5 @ [noFaceFrame 10] @ faceFrames 11 16 0.1 0.1 0.5) \<and>
   fst (predictWebcam (noFaceFrame 10) (run (faceFrames 0 10 0.1 0.1 0.5) started)) = Inr None \<and>
   eyeClosedFrames (run (faceFrames 0 10 0.1 0.1 0.5) started) = 10 \<and>
   eyeClosedFrames (run (faceFrames 0 10 0.1 0.1 0.5 @ [noFaceFrame 10]) started) = 10 \<and>
   eyeClosedFrames (run (faceFrames 0 10 0.1 0.1 0.5 @ [noFaceFrame 10] @
                         faceFrames 11 16 0.1 0.1 0.5) started) = 15 \<and>
   EYES_CLOSED \<in> set (currentAlerts
     (run (faceFrames 0 10 0.1 0.1 0.5 @ [noFaceFrame 10] @ faceFrames 11 16 0.1 0.1 0.5)
        started)) \<and>
   EYES_CLOSED \<notin> set (currentAlerts
     (run (take 15 (faceFrames 0 10 0.1 0.1 0.5 @ [noFaceFrame 10] @
                    faceFrames 11 16 0.1 0.1 0.5)) started))"
proof -
  let ?fs1 = "faceFrames 0 10 0.1 0.1 0.5" and ?nf = "noFaceFrame 10"
    and ?fs2 = "faceFrames 11 16 0.1 0.1 0.5"
  have h1: "noFace ?nf" by simp
  have h2: "length ?fs1 = 10" and h3: "length ?fs2 = 5" by simp_all
  have h4: "\<forall>f\<in>set (?fs1 @ ?fs2). eyesClosedFrame f"
    by (simp add: ball_Un faceFrames_all eyesClosedFrame_faceFrame thresholds)
  have h5: "fresh (lastVideoTime started) (?fs1 @ [?nf] @ ?fs2)"
    by (simp add: fresh_append fresh_faceFrames last_faceFrames started_eq)
  note t = no_face_freezes [OF h1 h2 h3 h4 h5]
  note t1 = t [THEN conjunct1, rule_format, of "run ?fs1 started"]
    and t2 = t [THEN conjunct2]
    and t3 = t [THEN conjunct2, THEN conjunct2, THEN conjunct2, THEN conjunct2,
                THEN conjunct2, rule_format, of 15]
  have "EYES_CLOSED \<notin> set (currentAlerts (run (take 15 (?fs1 @ [?nf] @ ?fs2)) started))"
    by (rule t3) simp
  with h1 h2 h3 h4 h5 t1 t2 show ?thesis
    unfolding list_all_iff by blast
qed

subsection \<open>C4: the guard of the yaw ratio\<close>

text \<open>
  C4 says that the yaw ratio is \<open>leftDist / max(rightDist, 0.001)\<close> for every frame,
  so that any \<open>rightDist\<close> below 0.001 is replaced. That fails when the nose tip is at
  \<open>x = 0.9995\<close> between cheeks at \<open>x = 0\<close> and \<open>x = 1\<close>: \<open>rightDist\<close> is 0.0005, the
  source divides by it and returns 1999, and the formula gives 999.5.
\<close>

theorem headYawRatio_not_max:
  "calculateHeadPose (face 0.3 0.1 0.9995) =
     Inr \<lparr>yawRatio = Finite 1999, pitch = 0, roll = 0\<rparr> \<and>
   headYawRatio_spec (face 0.3 0.1 0.9995) = Inr (Finite 999.5)"
  by (simp add: calculateHeadPose_face headYawRatio_spec_face DIVISION_EPSILON_def)

text \<open>
  C4, amended. For every frame that has the landmarks 1, 234 and 454, the yaw ratio is
  the quotient \<open>leftDist / safeRightDist\<close>, where \<open>safeRightDist\<close> is 0.001 when
  \<open>rightDist\<close> is exactly zero and \<open>rightDist\<close> otherwise. Degenerate geometry never
  surfaces as an error: the call returns a head pose and does not throw. The ratio equals
  \<open>leftDist / max(rightDist, 0.001)\<close> whenever \<open>rightDist\<close> is zero or at least 0.001.
  The quotient is the division of JavaScript, \<open>js_div\<close>; nothing is said about its
  size.
\<close>

theorem headYawRatio_guard:
  assumes "454 < length landmarks"
  shows "calculateHeadPose landmarks =
           Inr \<lparr>yawRatio =
                  js_div (Finite (leftDist landmarks))
                         (Finite (if rightDist landmarks = 0 then 0.001
                                  else rightDist landmarks)),
                pitch = 0, roll = 0\<rparr> \<and>
         (rightDist landmarks = 0 \<or> 0.001 \<le> rightDist landmarks \<longrightarrow>
            map_sum id yawRatio (calculateHeadPose landmarks) = headYawRatio_spec landmarks)"
proof -
  have g: "(if r = 0 then 0.001 else r) = max r DIVISION_EPSILON"
    if "r = 0 \<or> 0.001 \<le> r" for r :: real
    using that by (auto simp: max_def DIVISION_EPSILON_def)
  have q: "calculateHeadPose landmarks =
           Inr \<lparr>yawRatio =
                  js_div (Finite (leftDist landmarks))
                         (Finite (if rightDist landmarks = 0 then 0.001
                                  else rightDist landmarks)),
                pitch = 0, roll = 0\<rparr>"
    using assms
    by (simp add: calculateHeadPose_def landmarkAt_def leftDist_def rightDist_def Let_def)
  have "map_sum id yawRatio (calculateHeadPose landmarks) = headYawRatio_spec landmarks"
    if "rightDist landmarks = 0 \<or> 0.001 \<le> rightDist landmarks"
    unfolding calculateHeadPose_eq [OF assms] headYawRatio_spec_eq [OF assms]
    by (simp add: g [OF that])
  with q show ?thesis by blast
qed

theorem headYawRatio_guard_witness:
  "454 < length (face 0.3 0.1 1) \<and> rightDist (face 0.3 0.1 1) = 0 \<and>
   calculateHeadPose (face 0.3 0.1 1) = Inr \<lparr>yawRatio = Finite 1000, pitch = 0, roll = 0\<rparr> \<and>
   headYawRatio_spec (face 0.3 0.1 1) = Inr (Finite 1000)"
proof -
  have h: "454 < length (face 0.3 0.1 1)" by simp
  have r: "rightDist (face 0.3 0.1 1) = 0" and l: "leftDist (face 0.3 0.1 1) = 1"
    by (simp_all add: rightDist_face leftDist_face)
  from headYawRatio_guard [OF h] h r l show ?thesis by auto
qed

subsection \<open>C5: the kind of yawning alert\<close>

text \<open>
  C5. From the start state, fifteen consecutive detected frames with \<open>mar\<close> above
  \<open>MAR_THRESHOLD_YAWN\<close>: after the fifteenth, \<open>EXCESSIVE_YAWNING\<close> is active exactly
  when the \<open>mar\<close> of that fifteenth frame exceeds \<open>MAR_THRESHOLD_ALERT\<close>, and
  \<open>YAWNING_DETECTED\<close> exactly when it does not; the first fourteen frames have no
  influence on the kind. So \<open>mar = 0.85\<close> sustained activates \<open>EXCESSIVE_YAWNING\<close> and
  not \<open>YAWNING_DETECTED\<close>, and \<open>mar = 0.65\<close> sustained activates \<open>YAWNING_DETECTED\<close>
  and not \<open>EXCESSIVE_YAWNING\<close>.
\<close>

theorem yawning_alert_kind:
  assumes len: "length fs = 15"
    and yawn: "\<forall>f\<in>set fs. yawningFrame f"
    and m: "frame_mar (last fs) = Some m"
    and fr: "fresh (lastVideoTime started) fs"
  shows "(EXCESSIVE_YAWNING \<in> set (currentAlerts (run fs started)) \<longleftrightarrow>
            js_gt m (Finite MAR_THRESHOLD_ALERT)) \<and>
         (YAWNING_DETECTED \<in> set (currentAlerts (run fs started)) \<longleftrightarrow>
            \<not> js_gt m (Finite MAR_THRESHOLD_ALERT)) \<and>
         (m = Finite 0.85 \<longrightarrow>
            EXCESSIVE_YAWNING \<in> set (currentAlerts (run fs started)) \<and>
            YAWNING_DETECTED \<notin> set (currentAlerts (run fs started))) \<and>
         (m = Finite 0.65 \<longrightarrow>
            YAWNING_DETECTED \<in> set (currentAlerts (run fs started)) \<and>
            EXCESSIVE_YAWNING \<notin> set (currentAlerts (run fs started)))"
proof -
  let ?hs = "butlast fs" and ?g = "last fs"
  have fl: "faceLandmarker started" by (simp add: started_eq)
  from len have ne: "fs \<noteq> []" by auto
  then have split: "fs = ?hs @ [?g]" by simp
  have lenh: "length ?hs = 14" using len by simp
  have yh: "\<forall>f\<in>set ?hs. yawningFrame f" using yawn by (auto dest: in_set_butlastD)
  have yg: "yawningFrame ?g" using yawn ne by simp
  have frh: "fresh (lastVideoTime started) ?hs"
    using fr fresh_append [of _ ?hs "[?g]"] split by metis
  have wf: "\<forall>f\<in>set ?hs. noFace f \<or> frame_features f \<noteq> None"
    using yh yawningFrameD by fastforce
  from run_yawning [OF fl frh yh] lenh
  have st: "yawnFrames (run ?hs started) = 14"
    "EXCESSIVE_YAWNING \<notin> set (currentAlerts (run ?hs started))"
    "YAWNING_DETECTED \<notin> set (currentAlerts (run ?hs started))"
    by (simp_all add: started_eq thresholds)
  from m obtain e hp where gf: "frame_features ?g = Some (e, m, hp)"
    using frame_mar_SomeD by blast
  with yg m have gt: "js_gt m (Finite MAR_THRESHOLD_YAWN)"
    by (simp add: yawningFrame_def)
  have "fresh (lastVideoTime started) (?hs @ [?g])" using fr split by simp
  then have neg: "lastVideoTime (run ?hs started) \<noteq> currentTime ?g"
    using run_next_fresh [OF fl wf] by blast
  have "run (?hs @ [?g]) started = snd (predictWebcam ?g (run ?hs started))"
    using run_snoc [OF fl wf] gf by simp
  then have r: "run fs started =
      snd (classify e m hp ((run ?hs started)\<lparr>lastVideoTime := currentTime ?g\<rparr>))"
    using predictWebcam_detected [OF _ neg gf] fl split by simp
  have A: "EXCESSIVE_YAWNING \<in> set (currentAlerts (run fs started)) \<longleftrightarrow>
            js_gt m (Finite MAR_THRESHOLD_ALERT)"
    unfolding r by (simp add: classify_yawn_alerts gt st) (simp add: thresholds)
  have B: "YAWNING_DETECTED \<in> set (currentAlerts (run fs started)) \<longleftrightarrow>
            \<not> js_gt m (Finite MAR_THRESHOLD_ALERT)"
    unfolding r by (simp add: classify_yawn_alerts gt st) (simp add: thresholds)
  have C: "js_gt (Finite 0.85) (Finite MAR_THRESHOLD_ALERT)"
    "\<not> js_gt (Finite 0.65) (Finite MAR_THRESHOLD_ALERT)"
    by (simp_all add: js_gt_def thresholds)
  from A B C show ?thesis by auto
qed

theorem yawning_alert_kind_witness:
  "length (faceFrames 0 15 0.3 0.85 0.5) = 15 \<and>
   list_all yawningFrame (faceFrames 0 15 0.3 0.85 0.5) \<and>
   frame_mar (last (faceFrames 0 15 0.3 0.85 0.5)) = Some (Finite 0.85) \<and>
   fresh (lastVideoTime started) (faceFrames 0 15 0.3 0.85 0.5) \<and>
   EXCESSIVE_YAWNING \<in> set (currentAlerts (run (faceFrames 0 15 0.3 0.85 0.5) started)) \<and>
   YAWNING_DETECTED \<notin> set (currentAlerts (run (faceFrames 0 15 0.3 0.85 0.5) started)) \<and>
   length (faceFrames 0 15 0.3 0.65 0.5) = 15 \<and>
   list_all yawningFrame (faceFrames 0 15 0.3 0.65 0.5) \<and>
   frame_mar (last (faceFrames 0 15 0.3 0.65 0.5)) = Some (Finite 0.65) \<and>
   fresh (lastVideoTime started) (faceFrames 0 15 0.3 0.65 0.5) \<and>
   YAWNING_DETECTED \<in> set (currentAlerts (run (faceFrames 0 15 0.3 0.65 0.5) started)) \<and>
   EXCESSIVE_YAWNING \<notin> set (currentAlerts (run (faceFrames 0 15 0.3 0.65 0.5) started))"
proof -
  let ?fs = "faceFrames 0 15 0.3 0.85 0.5" and ?gs = "faceFrames 0 15 0.3 0.65 0.5"
  have f1: "length ?fs = 15" and g1: "length ?gs = 15" by simp_all
  have f2: "\<forall>f\<in>set ?fs. yawningFrame f" and g2: "\<forall>f\<in>set ?gs. yawningFrame f"
    by (simp_all add: faceFrames_all yawningFrame_faceFrame thresholds)
  have f3: "frame_mar (last ?fs) = Some (Finite 0.85)"
    and g3: "frame_mar (last ?gs) = Some (Finite 0.65)"
    by (simp_all add: last_faceFrames frame_mar_faceFrame)
  have f4: "fresh (lastVideoTime started) ?fs" and g4: "fresh (lastVideoTime started) ?gs"
    by (simp_all add: fresh_faceFrames started_eq)
  from yawning_alert_kind [OF f1 f2 f3 f4] yawning_alert_kind [OF g1 g2 g3 g4]
    f1 f2 f3 f4 g1 g2 g3 g4
  show ?thesis unfolding list_all_iff by blast
qed

subsection \<open>C6: the two eye counters\<close>

lemma classify_counters_exclusive:
  "eyeClosedFrames (snd (classify e m hp st)) = 0 \<or>
   eyePartiallyClosedFrames (snd (classify e m hp st)) = 0"
  using eye_counters_exclusive [of e st] by (simp add: classify_snd)

lemma predictWebcam_counters_exclusive:
  assumes "eyeClosedFrames st = 0 \<or> eyePartiallyClosedFrames st = 0"
  shows "eyeClosedFrames (snd (predictWebcam f st)) = 0 \<or>
         eyePartiallyClosedFrames (snd (predictWebcam f st)) = 0"
proof -
  let ?st0 = "st\<lparr>lastVideoTime := currentTime f\<rparr>"
  consider "snd (predictWebcam f st) = st"
    | "snd (predictWebcam f st) = ?st0"
    | e m hp where "snd (predictWebcam f st) = snd (classify e m hp ?st0)"
    using predictWebcam_cases [of f st] by blast
  then show ?thesis
  proof cases
    case 1
    with assms show ?thesis by simp
  next
    case 2
    with assms show ?thesis by simp
  next
    case 3
    then show ?thesis using classify_counters_exclusive [of e m hp ?st0] by simp
  qed
qed

lemma run_counters_exclusive:
  "eyeClosedFrames st = 0 \<or> eyePartiallyClosedFrames st = 0 \<Longrightarrow>
   eyeClosedFrames (run fs st) = 0 \<or> eyePartiallyClosedFrames (run fs st) = 0"
proof (induction fs arbitrary: st)
  case Nil
  then show ?case by simp
next
  case (Cons f fs)
  obtain r st1 where p: "predictWebcam f st = (r, st1)" by (cases "predictWebcam f st")
  have st1: "eyeClosedFrames st1 = 0 \<or> eyePartiallyClosedFrames st1 = 0"
    using predictWebcam_counters_exclusive [OF Cons.prems, of f] p by simp
  show ?case
  proof (cases r)
    case (Inl err)
    with p st1 Cons.prems show ?thesis by simp
  next
    case (Inr u)
    with p Cons.IH [OF st1] Cons.prems show ?thesis by simp
  qed
qed

text \<open>
  C6. In every state reached from the start state by processing any sequence of frames,
  \<open>eyeClosedFrames\<close> and \<open>eyePartiallyClosedFrames\<close> are never both greater than
  zero.
\<close>

theorem counters_never_both_positive:
  "\<not> (0 < eyeClosedFrames (run fs started) \<and> 0 < eyePartiallyClosedFrames (run fs started))"
proof -
  have "eyeClosedFrames started = 0 \<or> eyePartiallyClosedFrames started = 0"
    by (simp add: started_eq)
  from run_counters_exclusive [OF this, of fs] show ?thesis by auto
qed

subsection \<open>C7: symmetric cheeks\<close>

text \<open>
  C7 says that the yaw ratio is exactly 1 whenever \<open>leftDist = rightDist\<close>. That fails
  when nose tip and both cheeks share one x coordinate: both distances are zero, the
  divisor becomes 0.001 and the ratio is 0.
\<close>

theorem symmetric_yaw_zero:
  "leftDist (replicate 478 origin) = rightDist (replicate 478 origin) \<and>
   calculateHeadPose (replicate 478 origin) =
     Inr \<lparr>yawRatio = Finite 0, pitch = 0, roll = 0\<rparr>"
  by (simp add: calculateHeadPose_eq) (simp add: leftDist_def rightDist_def)

text \<open>
  C7, amended. For every frame with \<open>leftDist = rightDist\<close> and \<open>rightDist\<close> not zero,
  the yaw ratio is exactly 1.
\<close>

theorem symmetric_yaw_is_one:
  assumes "454 < length landmarks"
    and "leftDist landmarks = rightDist landmarks"
    and "rightDist landmarks \<noteq> 0"
  shows "calculateHeadPose landmarks = Inr \<lparr>yawRatio = Finite 1, pitch = 0, roll = 0\<rparr>"
  using assms by (simp add: calculateHeadPose_eq)

theorem symmetric_yaw_is_one_witness:
  "454 < length (face 0.3 0.1 0.5) \<and>
   leftDist (face 0.3 0.1 0.5) = rightDist (face 0.3 0.1 0.5) \<and>
   rightDist (face 0.3 0.1 0.5) \<noteq> 0 \<and>
   calculateHeadPose (face 0.3 0.1 0.5) = Inr \<lparr>yawRatio = Finite 1, pitch = 0, roll = 0\<rparr>"
proof -
  have h: "454 < length (face 0.3 0.1 0.5)" by simp
  have e: "leftDist (face 0.3 0.1 0.5) = rightDist (face 0.3 0.1 0.5)"
    and r: "rightDist (face 0.3 0.1 0.5) \<noteq> 0"
    by (simp_all add: rightDist_face leftDist_face)
  from symmetric_yaw_is_one [OF h e r] h e r show ?thesis by simp
qed

subsection \<open>C8: stopping\<close>

text \<open>
  C8. \<open>stopMonitoring\<close> is idempotent: from any state it sets the four counters to zero
  and empties the alert set, and a second call changes nothing (so a call in a state
  that is already reset leaves the counters at 0 and the alert set empty).
\<close>

theorem stopMonitoring_idempotent:
  "stopMonitoring (stopMonitoring st) = stopMonitoring st \<and>
   eyeClosedFrames (stopMonitoring st) = 0 \<and>
   eyePartiallyClosedFrames (stopMonitoring st) = 0 \<and>
   yawnFrames (stopMonitoring st) = 0 \<and>
   headTurnedFrames (stopMonitoring st) = 0 \<and>
   currentAlerts (stopMonitoring st) = []"
  by (simp add: stopMonitoring_def Let_def)

subsection \<open>C9: the distances of the extractors\<close>

text \<open>
  C9 says that every extractor, the yaw ratio included, measures three-dimensional
  Euclidean distances. That fails for the yaw ratio: on the tilted face the source
  returns 1, from the horizontal distances 0.3 and 0.3, where three-dimensional distances
  (0.5 on the left, 0.3 on the right) give 5/3.
\<close>

theorem head_pose_not_3D:
  "calculateHeadPose tiltedFace = Inr \<lparr>yawRatio = Finite 1, pitch = 0, roll = 0\<rparr> \<and>
   headYawRatio_3D tiltedFace = Inr (Finite (5 / 3))"
proof -
  have n: "landmarkAt tiltedFace (Suc 0) = Some \<lparr>px = 1 / 2, py = 1 / 2, pz = 0\<rparr>"
    and l: "landmarkAt tiltedFace 234 = Some \<lparr>px = 1 / 5, py = 1 / 10, pz = 0\<rparr>"
    and r: "landmarkAt tiltedFace 454 = Some \<lparr>px = 4 / 5, py = 1 / 2, pz = 0\<rparr>"
    by (simp_all add: landmarkAt_def tiltedFace_def)
  have a: "calculateHeadPose tiltedFace = Inr \<lparr>yawRatio = Finite 1, pitch = 0, roll = 0\<rparr>"
    by (simp add: calculateHeadPose_def n l r)
  have b: "headYawRatio_3D tiltedFace = Inr (Finite (5 / 3))"
    by (simp add: headYawRatio_3D_def n l r tilted_left tilted_right DIVISION_EPSILON_def)
  from a b show ?thesis by simp
qed

text \<open>
  C9, amended. \<open>calculateEAR\<close> and \<open>calculateMAR\<close> are built from full
  three-dimensional Euclidean distances \<open>sqrt (dx\<^sup>2 + dy\<^sup>2 + dz\<^sup>2)\<close> between landmarks;
  \<open>calculateHeadPose\<close> uses the horizontal distances \<open>|dx|\<close> only, so that projecting
  every landmark onto the x axis does not change its result.
\<close>

theorem distances_of_extractors:
  assumes "454 < length landmarks"
  shows "calculateEAR landmarks =
           Inr (js_div
                  (js_add
                     (js_div (Finite (landmarkDistance landmarks 160 144 +
                                      landmarkDistance landmarks 158 153))
                             (Finite (2 * landmarkDistance landmarks 33 133)))
                     (js_div (Finite (landmarkDistance landmarks 385 380 +
                                      landmarkDistance landmarks 387 373))
                             (Finite (2 * landmarkDistance landmarks 362 263))))
                  (Finite 2)) \<and>
         calculateMAR landmarks =
           Inr (js_div (Finite (landmarkDistance landmarks 13 14))
                       (Finite (landmarkDistance landmarks 78 308))) \<and>
         calculateHeadPose landmarks =
           Inr \<lparr>yawRatio = Finite (\<bar>px (landmarks ! 1) - px (landmarks ! 234)\<bar> /
                    (if \<bar>px (landmarks ! 454) - px (landmarks ! 1)\<bar> = 0 then 0.001
                     else \<bar>px (landmarks ! 454) - px (landmarks ! 1)\<bar>)),
                pitch = 0, roll = 0\<rparr> \<and>
         calculateHeadPose (map flatten landmarks) = calculateHeadPose landmarks"
proof -
  have ear: "calculateEAR landmarks =
           Inr (js_div
                  (js_add
                     (js_div (Finite (landmarkDistance landmarks 160 144 +
                                      landmarkDistance landmarks 158 153))
                             (Finite (2 * landmarkDistance landmarks 33 133)))
                     (js_div (Finite (landmarkDistance landmarks 385 380 +
                                      landmarkDistance landmarks 387 373))
                             (Finite (2 * landmarkDistance landmarks 362 263))))
                  (Finite 2))"
    unfolding calculateEAR_def using assms
    by (simp add: distanceAt_eq bind_def)
  have mar: "calculateMAR landmarks =
           Inr (js_div (Finite (landmarkDistance landmarks 13 14))
                       (Finite (landmarkDistance landmarks 78 308)))"
    unfolding calculateMAR_def using assms
    by (simp add: distanceAt_eq bind_def)
  have hp: "calculateHeadPose landmarks =
           Inr \<lparr>yawRatio = Finite (\<bar>px (landmarks ! 1) - px (landmarks ! 234)\<bar> /
                    (if \<bar>px (landmarks ! 454) - px (landmarks ! 1)\<bar> = 0 then 0.001
                     else \<bar>px (landmarks ! 454) - px (landmarks ! 1)\<bar>)),
                pitch = 0, roll = 0\<rparr>"
    using calculateHeadPose_eq [OF assms] by (simp add: leftDist_def rightDist_def)
  have fl: "calculateHeadPose (map flatten landmarks) = calculateHeadPose landmarks"
    using assms
    by (simp add: calculateHeadPose_def landmarkAt_def flatten_def Let_def)
  from ear mar hp fl show ?thesis by blast
qed

theorem distances_of_extractors_witness:
  "454 < length tiltedFace \<and>
   calculateHeadPose (map flatten tiltedFace) = calculateHeadPose tiltedFace \<and>
   calculateMAR tiltedFace =
     Inr (js_div (Finite (landmarkDistance tiltedFace 13 14))
                 (Finite (landmarkDistance tiltedFace 78 308)))"
proof -
  have h: "454 < length tiltedFace" by (simp add: tiltedFace_def)
  from distances_of_extractors [OF h] h show ?thesis by blast
qed

subsection \<open>C10: the alert for partially closed eyes\<close>

lemma partial_alert_removed_only:
  assumes "EYES_PARTIALLY_CLOSED \<in> set (currentAlerts st)"
    and "EYES_PARTIALLY_CLOSED \<notin> set (currentAlerts (snd (predictWebcam f st)))"
  shows "\<exists>e. frame_ear f = Some e \<and> (js_ge e (Finite EAR_THRESHOLD_PARTIALLY) \<or> e = NaN)"
proof (cases "frame_features f")
  case None
  with assms show ?thesis by (simp add: predictWebcam_snd split: if_splits)
next
  case (Some v)
  obtain e m hp where v: "v = (e, m, hp)" by (cases v)
  from assms Some v have "\<not> js_lt e (Finite EAR_THRESHOLD_PARTIALLY)"
    by (auto simp: predictWebcam_snd classify_eye_alerts split: if_splits)
  with Some v show ?thesis by (simp add: frame_ear_def not_js_lt_iff)
qed

lemma partial_alert_kept:
  assumes "frame_ear f = Some e" "js_lt e (Finite EAR_THRESHOLD_CLOSED)"
  shows "EYES_PARTIALLY_CLOSED \<in> set (currentAlerts (snd (predictWebcam f st))) \<longleftrightarrow>
         EYES_PARTIALLY_CLOSED \<in> set (currentAlerts st)"
proof -
  from assms(1) obtain m hp where "frame_features f = Some (e, m, hp)"
    using frame_ear_SomeD by blast
  then show ?thesis using assms(2) by (simp add: predictWebcam_snd classify_eye_alerts)
qed

text \<open>
  C10 says that the alert \<open>EYES_PARTIALLY_CLOSED\<close> is removed only by a detected frame
  with \<open>ear \<ge> 0.22\<close>. That fails for a face whose landmarks all coincide: after fifteen
  frames of partially closed eyes the alert is active, the \<open>ear\<close> of the degenerate face
  is \<open>0 / 0 = NaN\<close>, which is not \<open>\<ge> 0.22\<close>, and still both comparisons \<open>ear < \<dots>\<close>
  are false and the last branch removes the alert.
\<close>

theorem partial_alert_removed_on_NaN:
  "EYES_PARTIALLY_CLOSED \<in> set (currentAlerts (run (faceFrames 0 15 0.2 0.1 0.5) started)) \<and>
   frame_ear (degenerateFrame 15) = Some NaN \<and>
   \<not> js_ge NaN (Finite EAR_THRESHOLD_PARTIALLY) \<and>
   EYES_PARTIALLY_CLOSED \<notin> set (currentAlerts
      (snd (predictWebcam (degenerateFrame 15) (run (faceFrames 0 15 0.2 0.1 0.5) started))))"
proof -
  let ?ps = "faceFrames 0 15 0.2 0.1 0.5"
  have fl: "faceLandmarker started" by (simp add: started_eq)
  have pa: "\<forall>f\<in>set ?ps. noFace f \<or> eyesPartialFrame f"
    by (simp add: faceFrames_all eyesPartialFrame_def frame_ear_faceFrame thresholds)
  have np: "\<forall>f\<in>set ?ps. \<not> noFace f"
    by (simp add: faceFrames_all frame_features_not_noFace [OF frame_features_faceFrame])
  have frp: "fresh (lastVideoTime started) ?ps"
    by (simp add: fresh_faceFrames started_eq)
  have ex: "\<exists>f\<in>set ?ps. \<not> noFace f"
    using np by (simp add: faceFrames_def upt_conv_Cons)
  have p1: "EYES_PARTIALLY_CLOSED \<in> set (currentAlerts (run ?ps started))"
    using run_eyes_partial [OF fl frp pa] np ex
    by (simp add: filter_detected thresholds started_eq)
  have wfp: "\<forall>f\<in>set ?ps. noFace f \<or> frame_features f \<noteq> None"
    by (simp add: faceFrames_all frame_features_faceFrame)
  have lt: "lastVideoTime (run ?ps started) = 14"
    using run_lastVideoTime [OF fl wfp] by (simp add: last_faceFrames)
  have e: "frame_ear (degenerateFrame 15) = Some NaN"
    by (simp add: frame_ear_def frame_features_degenerate)
  have p2: "EYES_PARTIALLY_CLOSED \<notin> set (currentAlerts
      (snd (predictWebcam (degenerateFrame 15) (run ?ps started))))"
    using lt fl
    by (simp add: predictWebcam_snd frame_features_degenerate classify_eye_alerts
          currentTime_degenerateFrame)
  from p1 e p2 show ?thesis by simp
qed

text \<open>
  C10, amended. A frame removes the alert \<open>EYES_PARTIALLY_CLOSED\<close> only if it is a
  detected frame whose \<open>ear\<close> is \<open>\<ge> 0.22\<close> or \<open>NaN\<close>; a frame with
  \<open>ear < 0.18\<close> never removes it; and after fifteen frames of partially closed eyes
  followed by fifteen frames of closed eyes the alerts \<open>EYES_CLOSED\<close> and
  \<open>EYES_PARTIALLY_CLOSED\<close> are active together.
\<close>

theorem partial_alert_persists:
  assumes lp: "length ps = 15" and pa: "\<forall>f\<in>set ps. eyesPartialFrame f"
    and lc: "length cs = 15" and cl: "\<forall>f\<in>set cs. eyesClosedFrame f"
    and fr: "fresh (lastVideoTime started) (ps @ cs)"
  shows "(\<forall>st f. EYES_PARTIALLY_CLOSED \<in> set (currentAlerts st) \<and>
                 EYES_PARTIALLY_CLOSED \<notin> set (currentAlerts (snd (predictWebcam f st))) \<longrightarrow>
                 (\<exists>e. frame_ear f = Some e \<and>
                      (js_ge e (Finite EAR_THRESHOLD_PARTIALLY) \<or> e = NaN))) \<and>
         (\<forall>st f. eyesClosedFrame f \<and> EYES_PARTIALLY_CLOSED \<in> set (currentAlerts st) \<longrightarrow>
                 EYES_PARTIALLY_CLOSED \<in> set (currentAlerts (snd (predictWebcam f st)))) \<and>
         EYES_CLOSED \<in> set (currentAlerts (run (ps @ cs) started)) \<and>
         EYES_PARTIALLY_CLOSED \<in> set (currentAlerts (run (ps @ cs) started))"
proof -
  have fl: "faceLandmarker started" by (simp add: started_eq)
  have A: "\<forall>st f. EYES_PARTIALLY_CLOSED \<in> set (currentAlerts st) \<and>
                 EYES_PARTIALLY_CLOSED \<notin> set (currentAlerts (snd (predictWebcam f st))) \<longrightarrow>
                 (\<exists>e. frame_ear f = Some e \<and>
                      (js_ge e (Finite EAR_THRESHOLD_PARTIALLY) \<or> e = NaN))"
    using partial_alert_removed_only by blast
  have kept: "EYES_PARTIALLY_CLOSED \<in> set (currentAlerts (snd (predictWebcam f st))) \<longleftrightarrow>
         EYES_PARTIALLY_CLOSED \<in> set (currentAlerts st)" if "eyesClosedFrame f" for f st
    using that partial_alert_kept [of f _ st]
    by (auto simp: eyesClosedFrame_def split: option.splits)
  then have B: "\<forall>st f. eyesClosedFrame f \<and> EYES_PARTIALLY_CLOSED \<in> set (currentAlerts st) \<longrightarrow>
                 EYES_PARTIALLY_CLOSED \<in> set (currentAlerts (snd (predictWebcam f st)))"
    by blast
  have frp: "fresh (lastVideoTime started) ps"
    and frc: "fresh (if ps = [] then lastVideoTime started else currentTime (last ps)) cs"
    using fr by (simp_all add: fresh_append)
  have wfp: "\<forall>f\<in>set ps. noFace f \<or> frame_features f \<noteq> None"
    using pa eyesPartialFrameD by fastforce
  have np: "\<forall>f\<in>set ps. \<not> noFace f"
    using pa eyesPartialFrameD frame_features_not_noFace by blast
  have nc: "\<forall>f\<in>set cs. \<not> noFace f" using cl eyesClosedFrame_not_noFace by blast
  from lp obtain p ps' where ps: "ps = p # ps'" by (cases ps) auto
  from lc obtain c cs' where cs: "cs = c # cs'" by (cases cs) auto
  let ?st1 = "run ps started"
  have exp: "\<exists>f\<in>set ps. \<not> noFace f" and exc: "\<exists>f\<in>set cs. \<not> noFace f"
    using np nc ps cs by auto
  have p1: "EYES_PARTIALLY_CLOSED \<in> set (currentAlerts ?st1)"
    using run_eyes_partial [OF fl frp] pa np lp exp
    by (simp add: filter_detected thresholds)
  have fl1: "faceLandmarker ?st1" using fl by simp
  have fr1: "fresh (lastVideoTime ?st1) cs"
    using frc run_lastVideoTime [OF fl wfp] by simp
  have r: "run (ps @ cs) started = run cs ?st1" using run_append [OF fl wfp] .
  have c1: "EYES_CLOSED \<in> set (currentAlerts (run cs ?st1))"
    using run_eyes_closed [OF fl1 fr1] cl nc lc exc
    by (simp add: filter_detected thresholds)
  have "(EYES_PARTIALLY_CLOSED \<in> set (currentAlerts (run cs ?st1))) =
        (EYES_PARTIALLY_CLOSED \<in> set (currentAlerts ?st1))"
    by (rule run_preserved) (use cl kept in auto)
  with p1 have c2: "EYES_PARTIALLY_CLOSED \<in> set (currentAlerts (run cs ?st1))" by simp
  from A B c1 c2 show ?thesis unfolding r by blast
qed

theorem partial_alert_persists_witness:
  "length (faceFrames 0 15 0.2 0.1 0.5) = 15 \<and>
   list_all eyesPartialFrame (faceFrames 0 15 0.2 0.1 0.5) \<and>
   length (faceFrames 15 30 0.1 0.1 0.5) = 15 \<and>
   list_all eyesClosedFrame (faceFrames 15 30 0.1 0.1 0.5) \<and>
   fresh (lastVideoTime started) (faceFrames 0 15 0.2 0.1 0.5 @ faceFrames 15 30 0.1 0.1 0.5) \<and>
   EYES_CLOSED \<in> set (currentAlerts
     (run (faceFrames 0 15 0.2 0.1 0.5 @ faceFrames 15 30 0.1 0.1 0.5) started)) \<and>
   EYES_PARTIALLY_CLOSED \<in> set (currentAlerts
     (run (faceFrames 0 15 0.2 0.1 0.5 @ faceFrames 15 30 0.1 0.1 0.5) started))"
proof -
  let ?ps = "faceFrames 0 15 0.2 0.1 0.5" and ?cs = "faceFrames 15 30 0.1 0.1 0.5"
  have h1: "length ?ps = 15" and h3: "length ?cs = 15" by simp_all
  have h2: "\<forall>f\<in>set ?ps. eyesPartialFrame f"
    by (simp add: faceFrames_all eyesPartialFrame_faceFrame thresholds)
  have h4: "\<forall>f\<in>set ?cs. eyesClosedFrame f"
    by (simp add: faceFrames_all eyesClosedFrame_faceFrame thresholds)
  have h5: "fresh (lastVideoTime started) (?ps @ ?cs)"
    by (simp add: fresh_append fresh_faceFrames last_faceFrames started_eq)
  from partial_alert_persists [OF h1 h2 h3 h4 h5] h1 h2 h3 h4 h5
  show ?thesis unfolding list_all_iff by blast
qed

end
